theory Spec2Isabelle
  imports Complex_Main "HOL-Library.Sublist" "HOL-Library.Product_Lexorder"
begin

section \<open>Python values\<close>

text \<open>
  The repository is Python. An exception is a value of \<open>error\<close>; a computation that may
  raise returns \<open>error + 'a\<close> with \<open>Inl\<close> the exception, \<open>OtherError\<close> standing for an
  exception of any other class. A string is the list of its code points, and \<open>lit\<close> turns
  an ASCII literal of the source into such a list.
\<close>

datatype error = ValueError | TypeError | IndexError | OtherError

type_synonym str = "nat list"

definition lit :: "string \<Rightarrow> str" where
  "lit s = map of_char s"

text \<open>
  The values of an answers mapping. An object that is no integer, string, \<open>None\<close> or boolean
  (a float, a list, an instance of a class) is \<open>ObjV\<close>, given by what \<open>int\<close> and \<open>str\<close>
  make of it.
\<close>

datatype pyval = IntV int | StrV str | NoneV | BoolV bool | ObjV "error + int" "error + str"

subsection \<open>Floats\<close>

text \<open>
  A Python float is an IEEE 754 double: a finite number with its sign (\<open>True\<close> for minus)
  and its magnitude, so that both zeros are there, an infinity with its sign, or NaN.
\<close>

datatype double = Finite bool real | Infinite bool | NaN

definition pos_zero :: double where
  "pos_zero = Finite False 0"

text \<open>The comparison \<open>d == 0\<close>: true of both zeros, false of NaN.\<close>

definition is_zero :: "double \<Rightarrow> bool" where
  "is_zero d = (case d of Finite s m \<Rightarrow> m = 0 | Infinite s \<Rightarrow> False | NaN \<Rightarrow> False)"

text \<open>
  Rounding to nearest, ties to even, of a positive real \<open>x\<close> that carries the sign \<open>s\<close>: the
  exponent is that of \<open>x\<close> but at least \<open>-1022\<close> (below, the numbers are subnormal), the
  result is a multiple of \<open>2 ^ (exponent - 52)\<close>, and a result of \<open>2 ^ 1024\<close> or more is an
  infinity.
\<close>

definition expo :: "real \<Rightarrow> int" where
  "expo x = max (- 1022) \<lfloor>log 2 x\<rfloor>"

definition quantum :: "real \<Rightarrow> real" where
  "quantum x = 2 powr (of_int (expo x) - 52)"

definition round_half_even :: "real \<Rightarrow> int" where
  "round_half_even r =
     (let f = \<lfloor>r\<rfloor>; d = r - of_int f
      in if d < 1 / 2 then f else if 1 / 2 < d then f + 1 else if even f then f else f + 1)"

definition overflow :: real where
  "overflow = 2 ^ 1024"

definition round_mag :: "bool \<Rightarrow> real \<Rightarrow> double" where
  "round_mag s x =
     (if x = 0 then Finite s 0
      else let y = of_int (round_half_even (x / quantum x)) * quantum x
           in if overflow \<le> y then Infinite s else Finite s y)"

text \<open>Multiplication, division and square root of doubles; a division by zero gives an
  infinity or NaN, as \<open>numpy.float64\<close> does.\<close>

fun fmul :: "double \<Rightarrow> double \<Rightarrow> double" where
  "fmul (Finite s x) (Finite t y) = round_mag (s \<noteq> t) (x * y)"
| "fmul (Finite s x) (Infinite t) = (if x = 0 then NaN else Infinite (s \<noteq> t))"
| "fmul (Infinite s) (Finite t y) = (if y = 0 then NaN else Infinite (s \<noteq> t))"
| "fmul (Infinite s) (Infinite t) = Infinite (s \<noteq> t)"
| "fmul NaN b = NaN"
| "fmul a NaN = NaN"

fun fdiv :: "double \<Rightarrow> double \<Rightarrow> double" where
  "fdiv (Finite s x) (Finite t y) =
     (if y = 0 then (if x = 0 then NaN else Infinite (s \<noteq> t))
      else round_mag (s \<noteq> t) (x / y))"
| "fdiv (Finite s x) (Infinite t) = Finite (s \<noteq> t) 0"
| "fdiv (Infinite s) (Finite t y) = Infinite (s \<noteq> t)"
| "fdiv (Infinite s) (Infinite t) = NaN"
| "fdiv NaN b = NaN"
| "fdiv a NaN = NaN"

fun fsqrt :: "double \<Rightarrow> double" where
  "fsqrt (Finite s x) =
     (if x = 0 then Finite s 0 else if s then NaN else round_mag False (sqrt x))"
| "fsqrt (Infinite s) = (if s then NaN else Infinite False)"
| "fsqrt NaN = NaN"

text \<open>Addition, used by the sequential dot product below.\<close>

definition signed :: "bool \<Rightarrow> real \<Rightarrow> real" where
  "signed s x = (if s then - x else x)"

fun fadd :: "double \<Rightarrow> double \<Rightarrow> double" where
  "fadd (Finite s x) (Finite t y) =
     (let r = signed s x + signed t y
      in if r = 0 then Finite (if x = 0 \<and> y = 0 then s \<and> t else False) 0
         else round_mag (r < 0) \<bar>r\<bar>)"
| "fadd (Finite s x) (Infinite t) = Infinite t"
| "fadd (Infinite s) (Finite t y) = Infinite s"
| "fadd (Infinite s) (Infinite t) = (if s = t then Infinite s else NaN)"
| "fadd NaN b = NaN"
| "fadd a NaN = NaN"

text \<open>
  The place of a double that is not NaN in the order of \<open><\<close>: the infinities at the ends,
  the two zeros together.
\<close>

definition rank :: "double \<Rightarrow> int \<times> real" where
  "rank d = (case d of
               Finite s m \<Rightarrow> (0, signed s m)
             | Infinite s \<Rightarrow> (if s then (- 1, 0) else (1, 0))
             | NaN \<Rightarrow> (2, 0))"

subsection \<open>Strings and lists\<close>

text \<open>The characters \<open>str.isspace\<close> accepts, which are the ones \<open>str.strip\<close> removes.\<close>

definition is_space :: "nat \<Rightarrow> bool" where
  "is_space c = (c \<in> set [0x09, 0x0A, 0x0B, 0x0C, 0x0D, 0x1C, 0x1D, 0x1E, 0x1F, 0x20, 0x85,
                            0xA0, 0x1680, 0x2000, 0x2001, 0x2002, 0x2003, 0x2004, 0x2005,
                            0x2006, 0x2007, 0x2008, 0x2009, 0x200A, 0x2028, 0x2029, 0x202F,
                            0x205F, 0x3000])"

definition strip :: "str \<Rightarrow> str" where
  "strip s = rev (dropWhile is_space (rev (dropWhile is_space s)))"

text \<open>\<open>sep.join(xs)\<close>.\<close>

fun join :: "str \<Rightarrow> str list \<Rightarrow> str" where
  "join sep [] = []"
| "join sep [x] = x"
| "join sep (x # y # ys) = x @ sep @ join sep (y # ys)"

text \<open>The slice \<open>xs[:k]\<close>: a negative \<open>k\<close> counts from the end.\<close>

definition slice_to :: "int \<Rightarrow> 'a list \<Rightarrow> 'a list" where
  "slice_to k xs = (if 0 \<le> k then take (nat k) xs else take (length xs - nat (- k)) xs)"

text \<open>\<open>list(dict.fromkeys(xs))\<close>: duplicates collapse, first occurrences keep their order.\<close>

fun fromkeys :: "'a list \<Rightarrow> 'a list" where
  "fromkeys [] = []"
| "fromkeys (x # xs) = x # fromkeys (removeAll x xs)"

text \<open>\<open>sorted(xs, key=f, reverse=True)\<close> on keys that are totally ordered: the list is
  reversed, sorted stably in ascending order and reversed again, so equal keys keep their
  original order.\<close>

definition sort_reverse :: "('a \<Rightarrow> 'k::linorder) \<Rightarrow> 'a list \<Rightarrow> 'a list" where
  "sort_reverse f xs = rev (sort_key f (rev xs))"

text \<open>Truth value of an \<open>Optional[str]\<close>: None and the empty string are falsy.\<close>

definition truthy :: "str option \<Rightarrow> bool" where
  "truthy type_filter = (type_filter \<noteq> None \<and> type_filter \<noteq> Some [])"

text \<open>\<open>xs[0]\<close>.\<close>

definition first :: "'a list \<Rightarrow> error + 'a" where
  "first xs = (case xs of [] \<Rightarrow> Inl IndexError | x # rest \<Rightarrow> Inr x)"

section \<open>models.py\<close>

definition VALID_MEMORY_TYPES :: "str list" where
  "VALID_MEMORY_TYPES =
     [lit ''survey'', lit ''chat'', lit ''decision'', lit ''correction'', lit ''situation'']"

text \<open>The \<open>timestamp\<close> field (a wall-clock reading taken at construction, read only by the
  user interface) is left out of the record.\<close>

record MemoryItem =
  type :: str
  "text" :: str
  embedding :: "double list"
  meta :: "str \<rightharpoonup> str"
  permanent :: bool

text \<open>The constructor with \<open>__post_init__\<close>; \<open>permanent\<close> defaults to False.\<close>

definition new_MemoryItem :: "str \<Rightarrow> str \<Rightarrow> double list \<Rightarrow> (str \<rightharpoonup> str) \<Rightarrow> error + MemoryItem" where
  "new_MemoryItem ty tx emb mt =
     (if ty \<notin> set VALID_MEMORY_TYPES then Inl ValueError
      else Inr \<lparr>type = ty, text = tx, embedding = emb, meta = mt, permanent = False\<rparr>)"

record Persona =
  user_name :: str
  persona_summary :: str
  tone_style :: str
  "values" :: str
  humor :: str
  decision_style :: str
  survey_json :: "str \<rightharpoonup> pyval"
  mbti :: str

definition new_Persona :: "str \<Rightarrow> Persona" where
  "new_Persona name =
     \<lparr>user_name = name, persona_summary = [], tone_style = lit ''Balanced, friendly'',
      values = lit ''Pragmatic, honest'', humor = lit ''Light, situational'',
      decision_style = lit ''Evidence-driven with intuition'', survey_json = Map.empty,
      mbti = []\<rparr>"

section \<open>What lies outside the repository\<close>

text \<open>
  \<open>env\<close> holds what the libraries and the provider answer during one operation:
  \<^item> \<open>embed_content model text\<close>: the embedding the SDK returns, \<open>None\<close> when the call raises;
  \<^item> \<open>generate_content model system_prompt message\<close>: the SDK's response, \<open>None\<close> when the
    call raises;
  \<^item> \<open>random_draw text i\<close>: the \<open>i\<close>-th draw of the generator seeded with the hash of \<open>text\<close>;
  \<^item> \<open>np_dot a b\<close>: \<open>numpy.dot\<close> of two arrays of equal length, whose order of summation
    is the library's;
  \<^item> \<open>nan_order keys\<close>: the order in which \<open>list.sort\<close> with \<open>reverse=True\<close> leaves the
    positions of a list with these keys when one of them is NaN, where \<open><\<close> is no order;
  \<^item> \<open>decimal_value c\<close>: the value of \<open>c\<close> as a decimal digit of the Unicode database;
  \<^item> \<open>str_lower\<close>, \<open>str_upper\<close>: \<open>str.lower\<close> and \<open>str.upper\<close> on a string that is not ASCII;
  \<^item> \<open>int_max_str_digits\<close>: the interpreter's limit on the digits of an integer converted
    from or to a string (4300 unless changed, 0 for none);
  \<^item> \<open>environ_key\<close>: the variable \<open>GEMINI_API_KEY\<close> of the process environment, empty when
    it is not set;
  \<^item> \<open>sdk_configure key\<close>: whether the SDK can be imported and configured with \<open>key\<close>
    without an exception.
\<close>

record response =
  resp_text :: "str option"
  candidates :: "str list list"

record env =
  embed_content :: "str \<Rightarrow> str \<Rightarrow> double list option"
  generate_content :: "str \<Rightarrow> str \<Rightarrow> str \<Rightarrow> response option"
  random_draw :: "str \<Rightarrow> nat \<Rightarrow> double"
  np_dot :: "double list \<Rightarrow> double list \<Rightarrow> double"
  nan_order :: "double list \<Rightarrow> nat list"
  decimal_value :: "nat \<Rightarrow> nat option"
  str_lower :: "str \<Rightarrow> str"
  str_upper :: "str \<Rightarrow> str"
  int_max_str_digits :: nat
  environ_key :: str
  sdk_configure :: "str \<Rightarrow> bool"

subsection \<open>Conversions between integers and strings\<close>

text \<open>
  \<open>int(s)\<close> first maps every character from U+007F on to a blank when it is a space, to its
  ASCII digit when it is a decimal digit, and to an invalid character otherwise; then it
  skips ASCII white space at both ends, reads a sign, and reads decimal digits with single
  underscores between them.
\<close>

definition int_space :: "nat \<Rightarrow> bool" where
  "int_space c = (if c < 127 then c \<in> set [0x09, 0x0A, 0x0B, 0x0C, 0x0D, 0x20] else is_space c)"

definition digit_of :: "env \<Rightarrow> nat \<Rightarrow> nat option" where
  "digit_of e c =
     (if c < 127 then (if 48 \<le> c \<and> c \<le> 57 then Some (c - 48) else None)
      else if is_space c then None
      else decimal_value e c)"

text \<open>\<open>prev\<close> tells whether the previous character was a digit; the result is the value
  and the number of digits.\<close>

fun parse_digits :: "env \<Rightarrow> bool \<Rightarrow> nat \<Rightarrow> nat \<Rightarrow> str \<Rightarrow> (nat \<times> nat) option" where
  "parse_digits e prev acc cnt [] = (if prev then Some (acc, cnt) else None)"
| "parse_digits e prev acc cnt (c # cs) =
     (case digit_of e c of
        Some d \<Rightarrow> parse_digits e True (10 * acc + d) (Suc cnt) cs
      | None \<Rightarrow> if c = 0x5F \<and> prev then parse_digits e False acc cnt cs else None)"

text \<open>The limit on digits is checked above 640 digits only.\<close>

definition too_many_digits :: "env \<Rightarrow> nat \<Rightarrow> bool" where
  "too_many_digits e cnt = (640 < cnt \<and> 0 < int_max_str_digits e \<and> int_max_str_digits e < cnt)"

definition parse_int :: "env \<Rightarrow> str \<Rightarrow> int option" where
  "parse_int e s =
     (case rev (dropWhile int_space (rev (dropWhile int_space s))) of
        [] \<Rightarrow> None
      | c # cs \<Rightarrow>
          (case parse_digits e False 0 0 (if c = 0x2D \<or> c = 0x2B then cs else c # cs) of
             None \<Rightarrow> None
           | Some (n, cnt) \<Rightarrow>
               if too_many_digits e cnt then None
               else Some (if c = 0x2D then - int n else int n)))"

text \<open>The builtin \<open>int(v)\<close>: \<open>int(None)\<close> raises TypeError, a string that is not a
  decimal literal, or has too many digits, raises ValueError.\<close>

definition py_int :: "env \<Rightarrow> pyval \<Rightarrow> error + int" where
  "py_int e v =
     (case v of
        IntV n \<Rightarrow> Inr n
      | BoolV b \<Rightarrow> Inr (if b then 1 else 0)
      | NoneV \<Rightarrow> Inl TypeError
      | StrV s \<Rightarrow> (case parse_int e s of None \<Rightarrow> Inl ValueError | Some n \<Rightarrow> Inr n)
      | ObjV i s \<Rightarrow> i)"

fun str_nat :: "nat \<Rightarrow> str" where
  "str_nat n = (if n < 10 then [48 + n] else str_nat (n div 10) @ [48 + n mod 10])"

declare str_nat.simps [simp del]

text \<open>\<open>str(i)\<close> of an integer, which raises ValueError beyond the limit on digits.\<close>

definition str_int :: "env \<Rightarrow> int \<Rightarrow> error + str" where
  "str_int e i =
     (if too_many_digits e (length (str_nat (nat \<bar>i\<bar>))) then Inl ValueError
      else Inr (if i < 0 then 0x2D # str_nat (nat (- i)) else str_nat (nat i)))"

text \<open>The builtin \<open>str(v)\<close>.\<close>

definition py_str :: "env \<Rightarrow> pyval \<Rightarrow> error + str" where
  "py_str e v =
     (case v of
        IntV n \<Rightarrow> str_int e n
      | StrV s \<Rightarrow> Inr s
      | NoneV \<Rightarrow> Inr (lit ''None'')
      | BoolV b \<Rightarrow> Inr (if b then lit ''True'' else lit ''False'')
      | ObjV i s \<Rightarrow> s)"

subsection \<open>Letter case\<close>

definition lower_ascii :: "nat \<Rightarrow> nat" where
  "lower_ascii c = (if 65 \<le> c \<and> c \<le> 90 then c + 32 else c)"

definition upper_ascii :: "nat \<Rightarrow> nat" where
  "upper_ascii c = (if 97 \<le> c \<and> c \<le> 122 then c - 32 else c)"

definition lower :: "env \<Rightarrow> str \<Rightarrow> str" where
  "lower e s = (if list_all (\<lambda>c. c < 128) s then map lower_ascii s else str_lower e s)"

definition upper :: "env \<Rightarrow> str \<Rightarrow> str" where
  "upper e s = (if list_all (\<lambda>c. c < 128) s then map upper_ascii s else str_upper e s)"

section \<open>memory_bank.py\<close>

text \<open>A \<open>MemoryBank\<close> is its list \<open>_memories\<close>, in insertion order.\<close>

type_synonym MemoryBank = "MemoryItem list"

text \<open>\<open>np.linalg.norm(a)\<close> of a one-dimensional array is \<open>sqrt(a.dot(a))\<close>.\<close>

definition linalg_norm :: "env \<Rightarrow> double list \<Rightarrow> double" where
  "linalg_norm e a = fsqrt (np_dot e a a)"

text \<open>\<open>np.dot\<close> of two one-dimensional arrays of different sizes raises ValueError.\<close>

definition cosine_similarity :: "env \<Rightarrow> double list \<Rightarrow> double list \<Rightarrow> error + double" where
  "cosine_similarity e a b =
     (if a = [] \<or> b = [] then Inr pos_zero
      else let denom = fmul (linalg_norm e a) (linalg_norm e b) in
        if is_zero denom then Inr pos_zero
        else if length a \<noteq> length b then Inl ValueError
        else Inr (fdiv (np_dot e a b) denom))"

definition add :: "MemoryItem \<Rightarrow> MemoryBank \<Rightarrow> MemoryBank" where
  "add item ms = ms @ [item]"

definition list_memories :: "MemoryBank \<Rightarrow> MemoryItem list" where
  "list_memories ms = ms"

text \<open>The scoring loop of \<open>search\<close>; a falsy filter filters nothing.\<close>

fun scored :: "env \<Rightarrow> double list \<Rightarrow> str option \<Rightarrow> MemoryItem list
    \<Rightarrow> error + (double \<times> MemoryItem) list" where
  "scored e q type_filter [] = Inr []"
| "scored e q type_filter (m # ms) =
     (if truthy type_filter \<and> type m \<noteq> the type_filter
      then scored e q type_filter ms
      else case cosine_similarity e q (embedding m) of
             Inl err \<Rightarrow> Inl err
           | Inr s \<Rightarrow> (case scored e q type_filter ms of
                         Inl err \<Rightarrow> Inl err
                       | Inr rest \<Rightarrow> Inr ((s, m) # rest)))"

text \<open>\<open>scored.sort(key=lambda x: x[0], reverse=True)\<close>.\<close>

definition sort_scored :: "env \<Rightarrow> (double \<times> MemoryItem) list \<Rightarrow> (double \<times> MemoryItem) list" where
  "sort_scored e sc =
     (if list_ex (\<lambda>p. fst p = NaN) sc
      then map (\<lambda>i. sc ! i) (filter (\<lambda>i. i < length sc) (nan_order e (map fst sc)))
      else sort_reverse (\<lambda>p. rank (fst p)) sc)"

definition search :: "env \<Rightarrow> double list \<Rightarrow> int \<Rightarrow> str option \<Rightarrow> MemoryBank \<Rightarrow> error + MemoryItem list" where
  "search e query_embedding top_k type_filter ms =
     (case scored e query_embedding type_filter ms of
        Inl err \<Rightarrow> Inl err
      | Inr sc \<Rightarrow> Inr (map snd (slice_to top_k (sort_scored e sc))))"

definition delete :: "int \<Rightarrow> MemoryBank \<Rightarrow> MemoryBank" where
  "delete idx ms =
     (if 0 \<le> idx \<and> idx < int (length ms) then take (nat idx) ms @ drop (Suc (nat idx)) ms
      else ms)"

definition clear :: "bool \<Rightarrow> MemoryBank \<Rightarrow> MemoryBank" where
  "clear keep_permanent ms = (if keep_permanent then filter permanent ms else [])"

section \<open>gemini_client.py\<close>

record GeminiClient =
  api_key :: str
  model_name :: str
  embed_model :: str
  configured :: bool
  have_sdk :: bool

text \<open>The constructor with the default models: the key is the argument or, when that is
  falsy, the variable of the environment; \<open>_configure_sdk\<close> returns early on an empty key
  and sets both flags when the SDK accepts the key.\<close>

definition new_GeminiClient :: "env \<Rightarrow> str option \<Rightarrow> GeminiClient" where
  "new_GeminiClient e key =
     (let k = strip (if truthy key then the key else environ_key e);
          ok = (k \<noteq> [] \<and> sdk_configure e k)
      in \<lparr>api_key = k, model_name = lit ''gemini-1.5-flash'',
          embed_model = lit ''text-embedding-004'', configured = ok, have_sdk = ok\<rparr>)"

fun embed_loop :: "env \<Rightarrow> str \<Rightarrow> str list \<Rightarrow> double list list option" where
  "embed_loop e model [] = Some []"
| "embed_loop e model (t # ts) =
     (case embed_content e model t of
        None \<Rightarrow> None
      | Some v \<Rightarrow> map_option ((#) v) (embed_loop e model ts))"

definition offline_embeddings :: "env \<Rightarrow> str list \<Rightarrow> double list list" where
  "offline_embeddings e texts = map (\<lambda>t. map (random_draw e t) [0..<256]) texts"

definition embed :: "env \<Rightarrow> GeminiClient \<Rightarrow> str list \<Rightarrow> double list list" where
  "embed e g texts =
     (if texts = [] then []
      else if have_sdk g \<and> configured g then
        (case embed_loop e (embed_model g) texts of
           None \<Rightarrow> offline_embeddings e texts
         | Some vecs \<Rightarrow> if list_all (\<lambda>v. v = []) vecs then offline_embeddings e texts else vecs)
      else offline_embeddings e texts)"

definition stub_reply :: "str \<Rightarrow> str" where
  "stub_reply user_message =
     lit ''[Stubbed Gemini Reply] Based on your persona and memories, ''
     @ lit ''here's a likely response: '' @ slice_to 160 user_message @ lit '' ...''"

fun candidates_reply :: "str list list \<Rightarrow> str option" where
  "candidates_reply [] = None"
| "candidates_reply (parts # cs) =
     (if parts \<noteq> [] \<and> strip (join (lit '' '') parts) \<noteq> []
      then Some (strip (join (lit '' '') parts))
      else candidates_reply cs)"

definition live_reply :: "response \<Rightarrow> str option" where
  "live_reply resp =
     (case resp_text resp of
        Some txt \<Rightarrow> if strip txt \<noteq> [] then Some (strip txt) else candidates_reply (candidates resp)
      | None \<Rightarrow> candidates_reply (candidates resp))"

definition GeminiClient_chat :: "env \<Rightarrow> GeminiClient \<Rightarrow> str \<Rightarrow> str \<Rightarrow> str" where
  "GeminiClient_chat e g system_prompt user_message =
     (if have_sdk g \<and> configured g then
        (case generate_content e (model_name g) system_prompt user_message of
           None \<Rightarrow> stub_reply user_message
         | Some resp \<Rightarrow> (case live_reply resp of
                          Some r \<Rightarrow> r
                        | None \<Rightarrow> stub_reply user_message))
      else stub_reply user_message)"

section \<open>twin_core.py: persona derivation\<close>

text \<open>\<open>values\<close> is the dict's item list, in insertion order.\<close>

definition top_values :: "(str \<times> int) list \<Rightarrow> int \<Rightarrow> str list" where
  "top_values vs n = map fst (slice_to n (sort_reverse snd vs))"

text \<open>\<open>int(answers.get(key, 3))\<close>, with no exception handler around it.\<close>

definition int_or_3 :: "env \<Rightarrow> (str \<rightharpoonup> pyval) \<Rightarrow> str \<Rightarrow> error + int" where
  "int_or_3 e answers key = (case answers key of None \<Rightarrow> Inr 3 | Some v \<Rightarrow> py_int e v)"

definition derive_mbti :: "env \<Rightarrow> (str \<rightharpoonup> pyval) \<Rightarrow> error + str" where
  "derive_mbti e answers =
     (case int_or_3 e answers (lit ''mbti_ei'') of Inl err \<Rightarrow> Inl err | Inr ei \<Rightarrow>
     (case int_or_3 e answers (lit ''mbti_sn'') of Inl err \<Rightarrow> Inl err | Inr sn \<Rightarrow>
     (case int_or_3 e answers (lit ''mbti_tf'') of Inl err \<Rightarrow> Inl err | Inr tf \<Rightarrow>
     (case int_or_3 e answers (lit ''mbti_jp'') of Inl err \<Rightarrow> Inl err | Inr jp \<Rightarrow>
        Inr (lit [if 4 \<le> ei then CHR ''E'' else if ei \<le> 2 then CHR ''I'' else CHR ''X'',
                  if 4 \<le> sn then CHR ''N'' else if sn \<le> 2 then CHR ''S'' else CHR ''X'',
                  if 4 \<le> tf then CHR ''F'' else if tf \<le> 2 then CHR ''T'' else CHR ''X'',
                  if 4 \<le> jp then CHR ''P'' else if jp \<le> 2 then CHR ''J'' else CHR ''X''])))))"

fun top_values_sentence :: "str list \<Rightarrow> str" where
  "top_values_sentence [] = lit ''pragmatism''"
| "top_values_sentence [v] = v"
| "top_values_sentence vals = join (lit '', '') (butlast vals) @ lit '' and '' @ last vals"

text \<open>The local function \<open>geti\<close>: \<open>int(answers.get(key))\<close> inside \<open>try\<close>, any exception
  (a missing key gives \<open>int(None)\<close>) yields the default.\<close>

definition geti :: "env \<Rightarrow> (str \<rightharpoonup> pyval) \<Rightarrow> str \<Rightarrow> int \<Rightarrow> int" where
  "geti e answers key dflt =
     (case py_int e (case answers key of None \<Rightarrow> NoneV | Some v \<Rightarrow> v) of
        Inl err \<Rightarrow> dflt
      | Inr n \<Rightarrow> n)"

definition values_map :: "env \<Rightarrow> (str \<rightharpoonup> pyval) \<Rightarrow> (str \<times> int) list" where
  "values_map e answers =
     [(lit ''honesty'', geti e answers (lit ''val_honesty'') 3),
      (lit ''efficiency'', geti e answers (lit ''val_efficiency'') 3),
      (lit ''loyalty'', geti e answers (lit ''val_loyalty'') 3),
      (lit ''creativity'', geti e answers (lit ''val_creativity'') 3),
      (lit ''frugality'', geti e answers (lit ''val_frugality'') 3)]"

definition top_vals :: "env \<Rightarrow> (str \<rightharpoonup> pyval) \<Rightarrow> str list" where
  "top_vals e answers = top_values (values_map e answers) 3"

definition tone_bits :: "env \<Rightarrow> (str \<rightharpoonup> pyval) \<Rightarrow> str list" where
  "tone_bits e answers =
     (let directness = geti e answers (lit ''tone_directness'') 3;
          formality = geti e answers (lit ''tone_formality'') 3;
          empathy = geti e answers (lit ''tone_empathy'') 3;
          msg_len = geti e answers (lit ''msg_length'') 3
      in [if 4 \<le> directness then lit ''direct''
          else if directness \<le> 2 then lit ''diplomatic'' else lit ''balanced'']
         @ [if 4 \<le> formality then lit ''formal''
            else if formality \<le> 2 then lit ''casual'' else lit ''semi-formal'']
         @ (if 4 \<le> empathy then [lit ''empathetic''] else [])
         @ (if 4 \<le> msg_len then [lit ''detailed'']
            else if msg_len \<le> 2 then [lit ''concise''] else []))"

definition tone_style_of :: "env \<Rightarrow> (str \<rightharpoonup> pyval) \<Rightarrow> str" where
  "tone_style_of e answers = join (lit '', '') (fromkeys (tone_bits e answers))"

text \<open>\<open>str(answers.get("humor_style", "light"))\<close> is outside \<open>geti\<close> and can raise.\<close>

definition humor_phrase_of :: "env \<Rightarrow> (str \<rightharpoonup> pyval) \<Rightarrow> error + str" where
  "humor_phrase_of e answers =
     (case py_str e (case answers (lit ''humor_style'') of
                       None \<Rightarrow> StrV (lit ''light'') | Some v \<Rightarrow> v) of
        Inl err \<Rightarrow> Inl err
      | Inr s \<Rightarrow>
          (let humor_style = (if strip s \<noteq> [] then strip s else lit ''light'');
               humor_freq = geti e answers (lit ''humor_frequency'') 3
           in Inr (if 4 \<le> humor_freq then lit ''often '' @ humor_style
                   else if humor_freq \<le> 2 then lit ''rarely '' @ humor_style
                   else humor_style)))"

definition decision_style_of :: "env \<Rightarrow> (str \<rightharpoonup> pyval) \<Rightarrow> str" where
  "decision_style_of e answers =
     (let data_vs_intuition = geti e answers (lit ''decision_data_vs_intuition'') 3;
          risk = geti e answers (lit ''risk_tolerance'') 3;
          speed = geti e answers (lit ''speed_vs_thoroughness'') 3;
          base = (if 4 \<le> data_vs_intuition \<and> risk \<le> 2 then lit ''data-first, risk-averse''
                  else if 4 \<le> data_vs_intuition \<and> 4 \<le> risk
                    then lit ''data-first, calculated risk-taker''
                  else if data_vs_intuition \<le> 2 \<and> 4 \<le> risk
                    then lit ''intuition-led, comfortable with risk''
                  else if data_vs_intuition \<le> 2 \<and> risk \<le> 2 then lit ''intuition-led, cautious''
                  else lit ''balances data and intuition'')
      in if 4 \<le> speed then base @ lit '', prefers speed''
         else if speed \<le> 2 then base @ lit '', prefers thoroughness''
         else base)"

text \<open>The four trait scores of the summary, formatted in the order of the f-string.\<close>

definition traits_of :: "env \<Rightarrow> (str \<rightharpoonup> pyval) \<Rightarrow> error + str" where
  "traits_of e answers =
     (case str_int e (geti e answers (lit ''agreeableness'') 3) of Inl err \<Rightarrow> Inl err | Inr agree \<Rightarrow>
     (case str_int e (geti e answers (lit ''conscientiousness'') 3) of Inl err \<Rightarrow> Inl err | Inr consc \<Rightarrow>
     (case str_int e (geti e answers (lit ''openness'') 3) of Inl err \<Rightarrow> Inl err | Inr open' \<Rightarrow>
     (case str_int e (geti e answers (lit ''extraversion'') 3) of Inl err \<Rightarrow> Inl err | Inr extra \<Rightarrow>
        Inr (lit ''Traits: agreeableness '' @ agree @ lit ''/5, conscientiousness '' @ consc
             @ lit ''/5, openness '' @ open' @ lit ''/5, extraversion '' @ extra @ lit ''/5.'')))))"

definition persona_summary_of :: "env \<Rightarrow> (str \<rightharpoonup> pyval) \<Rightarrow> str \<Rightarrow> error + str" where
  "persona_summary_of e answers humor_phrase =
     (case traits_of e answers of
        Inl err \<Rightarrow> Inl err
      | Inr traits \<Rightarrow>
          Inr (lit ''Tone is '' @ tone_style_of e answers @ lit ''. Values center on ''
               @ top_values_sentence (top_vals e answers) @ lit ''. ''
               @ lit ''Humor is '' @ humor_phrase @ lit ''. Decision-making is ''
               @ decision_style_of e answers @ lit ''. '' @ traits))"

text \<open>The dict returned by \<open>_derive_persona_fields\<close>, one field per key. The statements
  that can raise are, in the source's order, the \<open>str\<close> of the humor style, the formatting
  of the summary and \<open>_derive_mbti\<close>.\<close>

record persona_fields =
  f_tone :: str
  f_values :: str
  f_humor :: str
  f_decision_style :: str
  f_persona_summary :: str
  f_mbti :: str

definition derive_persona_fields :: "env \<Rightarrow> (str \<rightharpoonup> pyval) \<Rightarrow> error + persona_fields" where
  "derive_persona_fields e answers =
     (case humor_phrase_of e answers of Inl err \<Rightarrow> Inl err | Inr humor_phrase \<Rightarrow>
     (case persona_summary_of e answers humor_phrase of Inl err \<Rightarrow> Inl err | Inr summary \<Rightarrow>
     (case derive_mbti e answers of Inl err \<Rightarrow> Inl err | Inr code \<Rightarrow>
        Inr \<lparr>f_tone = tone_style_of e answers,
             f_values = join (lit '', '') (top_vals e answers),
             f_humor = humor_phrase,
             f_decision_style = decision_style_of e answers,
             f_persona_summary = summary,
             f_mbti = code\<rparr>)))"

section \<open>twin_core.py: the twin\<close>

text \<open>
  An operation of the twin takes the state and returns its result together with the state
  it leaves behind; when it raises, the state is the one reached at the raise.
\<close>

record DigitalAITwin =
  persona :: Persona
  memories :: MemoryBank
  gemini :: GeminiClient

definition new_DigitalAITwin :: "env \<Rightarrow> str \<Rightarrow> DigitalAITwin" where
  "new_DigitalAITwin e name =
     \<lparr>persona = new_Persona name, memories = [], gemini = new_GeminiClient e None\<rparr>"

text \<open>The recurring pair of statements
  \<open>emb = self.gemini.embed([t])[0]; self.memories.add(MemoryItem(type, text, emb, meta))\<close>.\<close>

definition remember :: "env \<Rightarrow> str \<Rightarrow> str \<Rightarrow> str \<Rightarrow> (str \<rightharpoonup> str) \<Rightarrow> DigitalAITwin
    \<Rightarrow> (error + unit) \<times> DigitalAITwin" where
  "remember e embedded ty tx mt tw =
     (case first (embed e (gemini tw) [embedded]) of
        Inl err \<Rightarrow> (Inl err, tw)
      | Inr emb \<Rightarrow>
          (case new_MemoryItem ty tx emb mt of
             Inl err \<Rightarrow> (Inl err, tw)
           | Inr item \<Rightarrow> (Inr (), tw\<lparr>memories := add item (memories tw)\<rparr>)))"

text \<open>\<open>str(answers.get(key, "")).strip()\<close>.\<close>

definition stripped_answer :: "env \<Rightarrow> (str \<rightharpoonup> pyval) \<Rightarrow> str \<Rightarrow> error + str" where
  "stripped_answer e answers key =
     (case py_str e (case answers key of None \<Rightarrow> StrV [] | Some v \<Rightarrow> v) of
        Inl err \<Rightarrow> Inl err
      | Inr s \<Rightarrow> Inr (strip s))"

text \<open>The loop over the example-decision keys of \<open>process_survey\<close>.\<close>

fun remember_examples :: "env \<Rightarrow> (str \<rightharpoonup> pyval) \<Rightarrow> str list \<Rightarrow> DigitalAITwin
    \<Rightarrow> (error + unit) \<times> DigitalAITwin" where
  "remember_examples e answers [] tw = (Inr (), tw)"
| "remember_examples e answers (key # keys) tw =
     (case stripped_answer e answers key of
        Inl err \<Rightarrow> (Inl err, tw)
      | Inr txt \<Rightarrow>
          if txt \<noteq> [] then
            (case remember e txt (lit ''decision'') txt Map.empty tw of
               (Inl err, tw') \<Rightarrow> (Inl err, tw')
             | (Inr u, tw') \<Rightarrow> remember_examples e answers keys tw')
          else remember_examples e answers keys tw)"

definition text_summary :: "Persona \<Rightarrow> str" where
  "text_summary p =
     lit ''Tone: '' @ tone_style p @ lit ''. Values: '' @ values p @ lit ''. ''
     @ lit ''Decision Style: '' @ decision_style p @ lit ''. Humor: '' @ humor p
     @ lit ''. MBTI: '' @ mbti p @ lit ''.''"

definition process_survey :: "env \<Rightarrow> (str \<rightharpoonup> pyval) \<Rightarrow> DigitalAITwin
    \<Rightarrow> (error + unit) \<times> DigitalAITwin" where
  "process_survey e answers tw =
     (let tw0 = tw\<lparr>persona := (persona tw)\<lparr>survey_json := answers\<rparr>\<rparr>
      in case derive_persona_fields e answers of
           Inl err \<Rightarrow> (Inl err, tw0)
         | Inr derived \<Rightarrow>
             (let tw1 = tw0\<lparr>persona := (persona tw0)
                          \<lparr>persona_summary := f_persona_summary derived,
                           tone_style := f_tone derived,
                           values := f_values derived,
                           humor := f_humor derived,
                           decision_style := f_decision_style derived,
                           mbti := f_mbti derived\<rparr>\<rparr>
              in case stripped_answer e answers (lit ''catchphrase'') of
                   Inl err \<Rightarrow> (Inl err, tw1)
                 | Inr catchphrase \<Rightarrow>
                     (case (if catchphrase \<noteq> []
                            then remember e catchphrase (lit ''survey'')
                                   (lit ''Catchphrase: '' @ catchphrase) Map.empty tw1
                            else (Inr (), tw1)) of
                        (Inl err, tw2) \<Rightarrow> (Inl err, tw2)
                      | (Inr u, tw2) \<Rightarrow>
                          (case remember_examples e answers
                                  [lit ''example_decision1'', lit ''example_decision2'',
                                   lit ''example_decision3''] tw2 of
                             (Inl err, tw3) \<Rightarrow> (Inl err, tw3)
                           | (Inr u', tw3) \<Rightarrow>
                               remember e (text_summary (persona tw3)) (lit ''survey'')
                                 (text_summary (persona tw3)) Map.empty tw3))))"

text \<open>\<open>s.split(":", 1)[-1]\<close>: what follows the first colon, or all of \<open>s\<close> without one.\<close>

definition after_colon :: "str \<Rightarrow> str" where
  "after_colon s = (case dropWhile (\<lambda>c. c \<noteq> 0x3A) s of [] \<Rightarrow> s | c # rest \<Rightarrow> rest)"

definition catchphrases :: "env \<Rightarrow> DigitalAITwin \<Rightarrow> str list" where
  "catchphrases e tw =
     map (\<lambda>m. strip (after_colon (text m)))
       (filter (\<lambda>m. type m = lit ''survey'' \<and> prefix (lit ''catchphrase:'') (lower e (text m)))
          (list_memories (memories tw)))"

text \<open>The en dash of the style rules, U+2013.\<close>

definition en_dash :: str where
  "en_dash = [0x2013]"

definition chat_style_rules :: "env \<Rightarrow> DigitalAITwin \<Rightarrow> str" where
  "chat_style_rules e tw =
     lit ''Respond in first person as '' @ user_name (persona tw) @ lit ''. Keep the tone ''
     @ tone_style (persona tw) @ lit ''. ''
     @ lit ''Be concise (1'' @ en_dash @ lit ''3 sentences) unless detail was requested. ''
     @ lit ''Avoid asking questions unless critical. ''
     @ lit ''Prefer decisive language.''
     @ (if catchphrases e tw \<noteq> []
        then lit '' Optionally weave in these catchphrase(s) naturally: ''
             @ join (lit '', '') (slice_to 2 (catchphrases e tw)) @ lit ''.''
        else [])"

definition chat_system_prompt :: "env \<Rightarrow> DigitalAITwin \<Rightarrow> MemoryItem list \<Rightarrow> str" where
  "chat_system_prompt e tw context_items =
     lit ''You are the AI twin of '' @ user_name (persona tw) @ lit ''.\<newline>''
     @ lit ''Persona: '' @ persona_summary (persona tw) @ lit ''\<newline>''
     @ lit ''Core Values: '' @ values (persona tw) @ lit ''\<newline>''
     @ lit ''Humor: '' @ humor (persona tw) @ lit ''\<newline>''
     @ lit ''Relevant Memories:\<newline>''
     @ join (lit ''\<newline>'')
         (slice_to 5 (map (\<lambda>m. lit ''- '' @ upper e (type m) @ lit '': '' @ text m) context_items))
     @ lit ''\<newline>\<newline>''
     @ lit ''Output style rules:\<newline>'' @ chat_style_rules e tw"

definition chat :: "env \<Rightarrow> str \<Rightarrow> int \<Rightarrow> DigitalAITwin \<Rightarrow> (error + str) \<times> DigitalAITwin" where
  "chat e message k tw =
     (case first (embed e (gemini tw) [message]) of
        Inl err \<Rightarrow> (Inl err, tw)
      | Inr q_emb \<Rightarrow>
     (case new_MemoryItem (lit ''chat'') message q_emb [lit ''role'' \<mapsto> lit ''user''] of
        Inl err \<Rightarrow> (Inl err, tw)
      | Inr item \<Rightarrow>
     (let tw1 = tw\<lparr>memories := add item (memories tw)\<rparr>
      in case search e q_emb k None (memories tw1) of
           Inl err \<Rightarrow> (Inl err, tw1)
         | Inr context_items \<Rightarrow>
     (let reply = GeminiClient_chat e (gemini tw1) (chat_system_prompt e tw1 context_items) message
      in case remember e reply (lit ''chat'') reply [lit ''role'' \<mapsto> lit ''assistant''] tw1 of
           (Inl err, tw2) \<Rightarrow> (Inl err, tw2)
         | (Inr u, tw2) \<Rightarrow> (Inr reply, tw2)))))"

definition decision_style_rules :: "env \<Rightarrow> DigitalAITwin \<Rightarrow> str" where
  "decision_style_rules e tw =
     lit ''Respond in first person as '' @ user_name (persona tw)
     @ lit ''. State the decision clearly in the first sentence, ''
     @ lit ''then give 1'' @ en_dash @ lit ''2 sentences of reasoning. No follow-up questions. ''
     @ lit ''Honor stated preferences if applicable.''
     @ (if catchphrases e tw \<noteq> []
        then lit '' Optionally include catchphrase(s) tastefully: ''
             @ join (lit '', '') (slice_to 2 (catchphrases e tw)) @ lit ''.''
        else [])"

text \<open>The three retrievals of \<open>simulate_decision\<close>: \<open>relevant_decisions\<close>, \<open>survey_ctx\<close>
  and \<open>user_prefs\<close>.\<close>

definition decision_context :: "env \<Rightarrow> double list \<Rightarrow> int \<Rightarrow> DigitalAITwin
    \<Rightarrow> error + (MemoryItem list \<times> MemoryItem list \<times> MemoryItem list)" where
  "decision_context e q_emb k tw =
     (case search e q_emb k (Some (lit ''decision'')) (memories tw) of
        Inl err \<Rightarrow> Inl err
      | Inr relevant_decisions \<Rightarrow>
     (case search e q_emb 2 (Some (lit ''survey'')) (memories tw) of
        Inl err \<Rightarrow> Inl err
      | Inr survey_ctx \<Rightarrow>
     (case search e q_emb (max 5 k) (Some (lit ''chat'')) (memories tw) of
        Inl err \<Rightarrow> Inl err
      | Inr relevant_chats \<Rightarrow>
          Inr (relevant_decisions, survey_ctx,
               filter (\<lambda>m. meta m (lit ''role'') \<noteq> Some (lit ''assistant'')) relevant_chats))))"

text \<open>One optional block of the decision prompt, as the source writes each of the three:
  \<open>(header + "\n".join(shown) + "\n" if lines else "")\<close>.\<close>

definition block :: "str \<Rightarrow> str list \<Rightarrow> str list \<Rightarrow> str" where
  "block header lines shown =
     (if lines \<noteq> [] then header @ join (lit ''\<newline>'') shown @ lit ''\<newline>'' else [])"

definition decision_system_prompt :: "env \<Rightarrow> DigitalAITwin \<Rightarrow> MemoryItem list \<Rightarrow> MemoryItem list
    \<Rightarrow> MemoryItem list \<Rightarrow> str" where
  "decision_system_prompt e tw relevant_decisions survey_ctx user_prefs =
     (let context_lines_decisions = map (\<lambda>m. lit ''- '' @ text m) relevant_decisions;
          context_lines_survey = map (\<lambda>m. lit ''- '' @ text m) survey_ctx;
          context_lines_prefs = map (\<lambda>m. lit ''- '' @ text m) (slice_to 5 user_prefs)
      in lit ''You are the AI twin of '' @ user_name (persona tw) @ lit ''.\<newline>''
         @ lit ''Persona Summary: '' @ persona_summary (persona tw) @ lit ''\<newline>''
         @ lit ''Decision-Making Style: '' @ decision_style (persona tw) @ lit ''\<newline>''
         @ block (lit ''Relevant Past Decisions:\<newline>'') context_lines_decisions
             (slice_to 5 context_lines_decisions)
         @ block (lit ''Survey Context:\<newline>'') context_lines_survey
             (slice_to 3 context_lines_survey)
         @ block (lit ''Past Preferences from Chats (user statements):\<newline>'')
             context_lines_prefs context_lines_prefs
         @ lit ''Output style rules:\<newline>'' @ decision_style_rules e tw)"

text \<open>The system prompt \<open>simulate_decision\<close> hands to the provider.\<close>

definition simulate_decision_prompt :: "env \<Rightarrow> str \<Rightarrow> int \<Rightarrow> DigitalAITwin \<Rightarrow> error + str" where
  "simulate_decision_prompt e situation k tw =
     (case first (embed e (gemini tw) [situation]) of
        Inl err \<Rightarrow> Inl err
      | Inr q_emb \<Rightarrow>
          (case decision_context e q_emb k tw of
             Inl err \<Rightarrow> Inl err
           | Inr (relevant_decisions, survey_ctx, user_prefs) \<Rightarrow>
               Inr (decision_system_prompt e tw relevant_decisions survey_ctx user_prefs)))"

definition simulate_decision :: "env \<Rightarrow> str \<Rightarrow> int \<Rightarrow> bool \<Rightarrow> DigitalAITwin
    \<Rightarrow> (error + str) \<times> DigitalAITwin" where
  "simulate_decision e situation k store tw =
     (case simulate_decision_prompt e situation k tw of
        Inl err \<Rightarrow> (Inl err, tw)
      | Inr system_prompt \<Rightarrow>
          (let reply = GeminiClient_chat e (gemini tw) system_prompt situation
           in if store then
                (case remember e reply (lit ''decision'') reply Map.empty tw of
                   (Inl err, tw') \<Rightarrow> (Inl err, tw')
                 | (Inr u, tw') \<Rightarrow> (Inr reply, tw'))
              else (Inr reply, tw)))"

section \<open>Notions used in the statements\<close>

text \<open>
  The records a search scores are those that pass the filter. Two vectors are compatible
  when \<open>_cosine_similarity\<close> returns on them: one of its two guards returns \<open>0.0\<close>, or the
  vectors have one length and the dot product is defined. The similarity of two
  vectors is the value returned, and NaN stands in where the function raises.
\<close>

definition eligible :: "str option \<Rightarrow> MemoryItem list \<Rightarrow> MemoryItem list" where
  "eligible type_filter ms = filter (\<lambda>m. \<not> truthy type_filter \<or> type m = the type_filter) ms"

definition compatible :: "env \<Rightarrow> double list \<Rightarrow> double list \<Rightarrow> bool" where
  "compatible e a b =
     (a = [] \<or> b = [] \<or> is_zero (fmul (linalg_norm e a) (linalg_norm e b)) \<or> length a = length b)"

definition similarity :: "env \<Rightarrow> double list \<Rightarrow> double list \<Rightarrow> double" where
  "similarity e a b = (case cosine_similarity e a b of Inl err \<Rightarrow> NaN | Inr s \<Rightarrow> s)"


text \<open>
  The embedding the client gives for one text, \<open>self.gemini.embed([t])[0]\<close>, and the records
  the twin builds from it.
\<close>

definition embedding_of :: "env \<Rightarrow> GeminiClient \<Rightarrow> str \<Rightarrow> double list" where
  "embedding_of e g t = (case embed e g [t] of [] \<Rightarrow> [] | v # rest \<Rightarrow> v)"

definition user_item :: "env \<Rightarrow> GeminiClient \<Rightarrow> str \<Rightarrow> MemoryItem" where
  "user_item e g message =
     \<lparr>type = lit ''chat'', text = message, embedding = embedding_of e g message,
      meta = [lit ''role'' \<mapsto> lit ''user''], permanent = False\<rparr>"

definition assistant_item :: "env \<Rightarrow> GeminiClient \<Rightarrow> str \<Rightarrow> MemoryItem" where
  "assistant_item e g reply =
     \<lparr>type = lit ''chat'', text = reply, embedding = embedding_of e g reply,
      meta = [lit ''role'' \<mapsto> lit ''assistant''], permanent = False\<rparr>"

definition decision_item :: "env \<Rightarrow> GeminiClient \<Rightarrow> str \<Rightarrow> MemoryItem" where
  "decision_item e g reply =
     \<lparr>type = lit ''decision'', text = reply, embedding = embedding_of e g reply,
      meta = Map.empty, permanent = False\<rparr>"

definition survey_item :: "env \<Rightarrow> GeminiClient \<Rightarrow> str \<Rightarrow> str \<Rightarrow> MemoryItem" where
  "survey_item e g embedded tx =
     \<lparr>type = lit ''survey'', text = tx, embedding = embedding_of e g embedded,
      meta = Map.empty, permanent = False\<rparr>"




text \<open>
  The parts of the decision prompt: the three headers, the lines before the blocks, the lines
  after them, and a block rendered from its header and its records. \<open>fragments\<close> renders the
  blocks whose records are not empty, and nothing for the others.
\<close>

definition decisions_header :: str where
  "decisions_header = lit ''Relevant Past Decisions:\<newline>''"

definition survey_header :: str where
  "survey_header = lit ''Survey Context:\<newline>''"

definition prefs_header :: str where
  "prefs_header = lit ''Past Preferences from Chats (user statements):\<newline>''"

definition prompt_head :: "DigitalAITwin \<Rightarrow> str" where
  "prompt_head tw =
     lit ''You are the AI twin of '' @ user_name (persona tw) @ lit ''.\<newline>''
     @ lit ''Persona Summary: '' @ persona_summary (persona tw) @ lit ''\<newline>''
     @ lit ''Decision-Making Style: '' @ decision_style (persona tw) @ lit ''\<newline>''"

definition prompt_tail :: "env \<Rightarrow> DigitalAITwin \<Rightarrow> str" where
  "prompt_tail e tw = lit ''Output style rules:\<newline>'' @ decision_style_rules e tw"

definition render_fragment :: "str \<times> MemoryItem list \<Rightarrow> str" where
  "render_fragment f =
     fst f @ join (lit ''\<newline>'') (map (\<lambda>m. lit ''- '' @ text m) (snd f)) @ lit ''\<newline>''"

definition fragments :: "(str \<times> MemoryItem list) list \<Rightarrow> str" where
  "fragments fs = concat (map render_fragment (filter (\<lambda>f. snd f \<noteq> []) fs))"

section \<open>Example inputs\<close>

text \<open>
  An environment for the examples: no key in the process environment and no SDK, hence no
  provider; a generator that always draws \<open>0.5\<close>; the identity for the Unicode tables; the
  default limit of 4300 digits; and a dot product that accumulates the products from left
  to right in double arithmetic.
\<close>

definition seq_dot :: "double list \<Rightarrow> double list \<Rightarrow> double" where
  "seq_dot a b = foldl (\<lambda>acc (x, y). fadd acc (fmul x y)) pos_zero (zip a b)"

definition one :: double where "one = Finite False 1"

definition example_env :: env where
  "example_env =
     \<lparr>embed_content = (\<lambda>model t. None), generate_content = (\<lambda>model p t. None),
      random_draw = (\<lambda>t i. Finite False (1 / 2)), np_dot = seq_dot, nan_order = (\<lambda>keys. [0..<length keys]),
      decimal_value = (\<lambda>c. None), str_lower = (\<lambda>s. s), str_upper = (\<lambda>s. s),
      int_max_str_digits = 4300, environ_key = [], sdk_configure = (\<lambda>key. False)\<rparr>"

text \<open>
  Four records: two chat records, a permanent decision record, and a survey record whose
  embedding has three entries where the others have two.
\<close>

definition item_a :: MemoryItem where
  "item_a = \<lparr>type = lit ''chat'', text = lit ''alpha'', embedding = [one, pos_zero],
             meta = [lit ''role'' \<mapsto> lit ''user''], permanent = False\<rparr>"

definition item_b :: MemoryItem where
  "item_b = \<lparr>type = lit ''decision'', text = lit ''beta'', embedding = [pos_zero, one],
             meta = Map.empty, permanent = True\<rparr>"

definition item_c :: MemoryItem where
  "item_c = \<lparr>type = lit ''chat'', text = lit ''gamma'', embedding = [one, one],
             meta = [lit ''role'' \<mapsto> lit ''assistant''], permanent = False\<rparr>"

definition item_d :: MemoryItem where
  "item_d = \<lparr>type = lit ''survey'', text = lit ''delta'', embedding = [one, pos_zero, pos_zero],
             meta = Map.empty, permanent = False\<rparr>"

text \<open>
  The survey answers of the example scenario, with the summaries derived from them, and the
  summary derived from no answers at all.
\<close>

definition survey_example :: "str \<rightharpoonup> pyval" where
  "survey_example = map_of
     [(lit ''tone_directness'', IntV 5), (lit ''tone_formality'', IntV 1),
      (lit ''val_honesty'', IntV 5), (lit ''val_creativity'', IntV 4),
      (lit ''val_efficiency'', IntV 3), (lit ''mbti_ei'', IntV 5), (lit ''mbti_sn'', IntV 3),
      (lit ''catchphrase'', StrV (lit ''Ship it.''))]"

definition survey_summary :: str where
  "survey_summary = lit ''Tone is direct, casual. Values center on honesty, creativity and efficiency. Humor is light. Decision-making is balances data and intuition. Traits: agreeableness 3/5, conscientiousness 3/5, openness 3/5, extraversion 3/5.''"

definition survey_summary_text :: str where
  "survey_summary_text = lit ''Tone: direct, casual. Values: honesty, creativity, efficiency. Decision Style: balances data and intuition. Humor: light. MBTI: EXXX.''"


text \<open>
  A twin as the constructor leaves it, with an empty store and no provider, and two messages
  with the stub replies to them.
\<close>

definition fresh_twin :: DigitalAITwin where
  "fresh_twin = new_DigitalAITwin example_env (lit ''You'')"

definition deadline_question :: str where
  "deadline_question = lit ''What's your take on deadlines?''"

definition deadline_reply :: str where
  "deadline_reply = lit ''[Stubbed Gemini Reply] Based on your persona and memories, here's a likely response: What's your take on deadlines? ...''"

definition job_question :: str where
  "job_question = lit ''Take the job?''"

definition job_reply :: str where
  "job_reply = lit ''[Stubbed Gemini Reply] Based on your persona and memories, here's a likely response: Take the job? ...''"

section \<open>Rounding\<close>

text \<open>
  A positive real in the binade of exponent \<open>ex\<close> that lies within half a unit in the last
  place of \<open>m * 2 ^ (ex - 52)\<close> rounds to it. The instances below are the roundings that
  the examples need: of 1, 2 and 3, of the square root of 3, of the square of the rounded root,
  and of 3 divided by that square.
\<close>

lemma round_half_even_near:
  assumes "of_int m - 1 / 2 < r" "r < of_int m + 1 / 2"
  shows "round_half_even r = m"
proof -
  have "\<lfloor>r\<rfloor> = m \<or> \<lfloor>r\<rfloor> = m - 1" using assms by linarith
  then show ?thesis
  proof
    assume f: "\<lfloor>r\<rfloor> = m"
    then have "r - of_int m < 1 / 2" using assms by linarith
    then show ?thesis by (simp add: round_half_even_def f Let_def)
  next
    assume f: "\<lfloor>r\<rfloor> = m - 1"
    then have "1 / 2 < r - of_int (m - 1)" using assms by linarith
    then show ?thesis by (simp add: round_half_even_def f Let_def)
  qed
qed

lemma expo_eq:
  assumes "2 powr of_int ex \<le> x" "x < 2 powr (of_int ex + 1)" "- 1022 \<le> ex"
  shows "expo x = ex"
proof -
  have "0 < (2::real) powr of_int ex" by simp
  then have pos: "0 < x" using assms(1) by linarith
  have "of_int ex \<le> log 2 x" using assms(1) pos by (simp add: le_log_iff)
  moreover have "log 2 x < of_int ex + 1" using assms(2) pos by (simp add: log_less_iff)
  ultimately have "\<lfloor>log 2 x\<rfloor> = ex" by linarith
  then show ?thesis using assms(3) by (simp add: expo_def)
qed

lemma round_mag_normal:
  assumes "2 powr of_int ex \<le> x" "x < 2 powr (of_int ex + 1)" "- 1022 \<le> ex" "ex < 1023"
    and "of_int m - 1 / 2 < x / 2 powr (of_int ex - 52)"
    and "x / 2 powr (of_int ex - 52) < of_int m + 1 / 2"
  shows "round_mag s x = Finite s (of_int m * 2 powr (of_int ex - 52))"
proof -
  define q :: real where "q = 2 powr (of_int ex - 52)"
  have q: "0 < q" by (simp add: q_def)
  have "0 < (2::real) powr of_int ex" by simp
  then have pos: "x \<noteq> 0" using assms(1) by linarith
  have e: "expo x = ex" using assms(1-3) by (rule expo_eq)
  have r: "round_half_even (x / q) = m"
    using assms(5,6) unfolding q_def by (rule round_half_even_near)
  have "x / q < 2 powr (of_int ex + 1) / q" using assms(2) q by (simp add: divide_strict_right_mono)
  also have "\<dots> = 2 powr 53" by (simp add: q_def flip: powr_diff)
  finally have "of_int m - 1 / 2 < (2::real) powr 53" using assms(5) unfolding q_def by linarith
  then have "real_of_int m < 2 ^ 53 + 1 / 2" by simp
  then have "real_of_int m < real_of_int (2 ^ 53 + 1)" by simp
  then have "m < 2 ^ 53 + 1" by (simp only: of_int_less_iff)
  then have "m \<le> 2 ^ 53" by simp
  then have "real_of_int m \<le> 2 powr 53" by (simp add: of_int_le_iff [symmetric] del: of_int_le_iff)
  then have b1: "of_int m * q \<le> 2 powr 53 * q" using q by (simp add: mult_right_mono)
  have "2 powr 53 * q = 2 powr (53 + (of_int ex - 52))"
    unfolding q_def by (rule powr_add [symmetric])
  also have "53 + (real_of_int ex - 52) = of_int ex + 1" by simp
  finally have b2: "2 powr 53 * q = 2 powr (of_int ex + 1)" .
  have b3: "(2::real) powr (of_int ex + 1) \<le> 2 powr 1023"
    by (rule powr_mono) (use assms(4) in simp_all)
  have b4: "(2::real) powr 1023 < 2 powr 1024" by (rule powr_less_mono) simp_all
  have b5: "(2::real) powr 1024 = overflow" by (simp add: overflow_def)
  have "\<not> overflow \<le> of_int m * q" using b1 b2 b3 b4 b5 by linarith
  then show ?thesis by (simp add: round_mag_def quantum_def e r pos Let_def flip: q_def)
qed

lemma p52: "2 powr (- 52) = 1 / (2 ^ 52 :: real)"
  by (simp add: powr_minus_divide)

lemma p51: "2 powr (- 51) = 1 / (2 ^ 51 :: real)"
  by (simp add: powr_minus_divide)

lemma round_one: "round_mag s 1 = Finite s 1"
  using round_mag_normal [of 0 1 "2 ^ 52" s] by (simp add: p52)

lemma round_two: "round_mag s 2 = Finite s 2"
  using round_mag_normal [of 1 2 "2 ^ 52" s] by (simp add: p51)

lemma round_three: "round_mag s 3 = Finite s 3"
  using round_mag_normal [of 1 3 "3 * 2 ^ 51" s] by (simp add: p51)







lemma fmul_one: "fmul one one = one"
  by (simp add: one_def round_one)

lemma fadd_zero_one: "fadd pos_zero one = one"
  by (simp add: one_def pos_zero_def signed_def round_one)

lemma fmul_zero: "fmul pos_zero pos_zero = pos_zero" "fmul one pos_zero = pos_zero"
  "fmul pos_zero one = pos_zero"
  by (simp_all add: one_def pos_zero_def round_mag_def)

lemma fadd_one_zero: "fadd one pos_zero = one" "fadd pos_zero pos_zero = pos_zero"
  by (simp_all add: one_def pos_zero_def signed_def round_one)

lemma fadd_ones: "fadd one one = Finite False 2" "fadd (Finite False 2) one = Finite False 3"
  by (simp_all add: one_def signed_def round_two round_three)

lemma fsqrt_one: "fsqrt one = one"
  by (simp add: one_def round_one)

lemma seq_dot_examples:
  "seq_dot [one, pos_zero] [one, pos_zero] = one"
  "seq_dot [one, pos_zero, pos_zero] [one, pos_zero, pos_zero] = one"
  "seq_dot [one, one, one] [one, one, one] = Finite False 3"
  by (simp_all add: seq_dot_def fmul_one fmul_zero fadd_zero_one fadd_one_zero fadd_ones)

lemma example_env_dot: "np_dot example_env = seq_dot"
  by (simp add: example_env_def)


section \<open>Cosine similarity\<close>


lemma cosine_compatible:
  "compatible e a b \<Longrightarrow> cosine_similarity e a b = Inr (similarity e a b)"
  by (auto simp: compatible_def similarity_def cosine_similarity_def Let_def)

lemma cosine_incompatible:
  "\<not> compatible e a b \<Longrightarrow> cosine_similarity e a b = Inl ValueError"
  by (auto simp: compatible_def cosine_similarity_def Let_def)




section \<open>Search\<close>

lemma scored_eligible:
  "\<forall>m \<in> set (eligible tf ms). compatible e q (embedding m) \<Longrightarrow>
   scored e q tf ms = Inr (map (\<lambda>m. (similarity e q (embedding m), m)) (eligible tf ms))"
proof (induction ms)
  case Nil
  show ?case by (simp add: eligible_def)
next
  case (Cons m ms)
  have rest: "\<forall>x \<in> set (eligible tf ms). compatible e q (embedding x)"
    using Cons.prems by (simp add: eligible_def)
  show ?case
  proof (cases "truthy tf \<and> type m \<noteq> the tf")
    case True
    then show ?thesis using Cons.IH [OF rest] by (simp add: eligible_def)
  next
    case False
    then have "compatible e q (embedding m)" using Cons.prems by (auto simp: eligible_def)
    then show ?thesis using False Cons.IH [OF rest]
      by (auto simp: eligible_def cosine_compatible)
  qed
qed

lemma scored_raises:
  "\<exists>m \<in> set (eligible tf ms). \<not> compatible e q (embedding m) \<Longrightarrow>
   scored e q tf ms = Inl ValueError"
proof (induction ms)
  case Nil
  then show ?case by (simp add: eligible_def)
next
  case (Cons m ms)
  show ?case
  proof (cases "truthy tf \<and> type m \<noteq> the tf")
    case True
    then have "\<exists>x \<in> set (eligible tf ms). \<not> compatible e q (embedding x)"
      using Cons.prems by (auto simp: eligible_def)
    then show ?thesis using True Cons.IH by simp
  next
    case False
    show ?thesis
    proof (cases "compatible e q (embedding m)")
      case True
      then have "\<exists>x \<in> set (eligible tf ms). \<not> compatible e q (embedding x)"
        using Cons.prems False by (auto simp: eligible_def)
      then have "scored e q tf ms = Inl ValueError" by (rule Cons.IH)
      then show ?thesis using False True by (auto simp: cosine_compatible)
    next
      case c: False
      then show ?thesis using False by (auto simp: cosine_incompatible)
    qed
  qed
qed

lemma search_raises_iff:
  "search e q k tf ms = Inl ValueError
     \<longleftrightarrow> (\<exists>m \<in> set (eligible tf ms). \<not> compatible e q (embedding m))"
proof
  assume r: "search e q k tf ms = Inl ValueError"
  show "\<exists>m \<in> set (eligible tf ms). \<not> compatible e q (embedding m)"
  proof (rule ccontr)
    assume "\<not> (\<exists>m \<in> set (eligible tf ms). \<not> compatible e q (embedding m))"
    then have "\<forall>m \<in> set (eligible tf ms). compatible e q (embedding m)" by blast
    from scored_eligible [OF this] r show False by (simp add: search_def)
  qed
next
  assume "\<exists>m \<in> set (eligible tf ms). \<not> compatible e q (embedding m)"
  then show "search e q k tf ms = Inl ValueError"
    by (simp add: search_def scored_raises)
qed

lemma slice_to_take: "\<exists>n. slice_to k xs = take n xs"
  by (auto simp: slice_to_def)

lemma length_slice_to: "0 \<le> k \<Longrightarrow> int (length (slice_to k xs)) \<le> k"
  by (simp add: slice_to_def)

lemma sort_reverse_descending:
  "sorted_wrt (\<lambda>x y. f y \<le> f x) (sort_reverse f xs)"
proof -
  have "sorted (map f (sort_key f (rev xs)))" by (rule sorted_sort_key)
  then have "sorted_wrt (\<lambda>x y. f x \<le> f y) (sort_key f (rev xs))" by (simp only: sorted_map)
  then show ?thesis by (simp add: sort_reverse_def sorted_wrt_rev)
qed

lemma sort_reverse_stable:
  "filter (\<lambda>y. f y = v) (sort_reverse f xs) = filter (\<lambda>y. f y = v) xs"
  by (simp add: sort_reverse_def sort_key_stable flip: rev_filter)

lemma set_sort_reverse: "set (sort_reverse f xs) = set xs"
  by (simp add: sort_reverse_def)

lemma set_slice_to: "set (slice_to k xs) \<subseteq> set xs"
  using slice_to_take [of k xs] by (metis set_take_subset)

lemma scored_items: "scored e q tf ms = Inr sc \<Longrightarrow> map snd sc = eligible tf ms"
proof (induction ms arbitrary: sc)
  case Nil
  then show ?case by (simp add: eligible_def)
next
  case (Cons m ms)
  then show ?case
    by (auto simp: eligible_def split: if_splits sum.splits)
qed

lemma set_sort_scored: "set (sort_scored e sc) \<subseteq> set sc"
  by (auto simp: sort_scored_def set_sort_reverse)

lemma search_subset:
  assumes "search e q k tf ms = Inr res"
  shows "set res \<subseteq> set (eligible tf ms)"
proof -
  from assms obtain sc where sc: "scored e q tf ms = Inr sc"
    and res: "res = map snd (slice_to k (sort_scored e sc))"
    by (auto simp: search_def split: sum.splits)
  have "set (slice_to k (sort_scored e sc)) \<subseteq> set sc"
    using set_slice_to [of k "sort_scored e sc"] set_sort_scored [of e sc] by blast
  then have "set res \<subseteq> snd ` set sc" by (auto simp: res)
  then show ?thesis using scored_items [OF sc] by (metis set_map)
qed

lemma search_none_of_type:
  assumes "f \<noteq> []" "list_all (\<lambda>m. type m \<noteq> f) ms"
  shows "search e q k (Some f) ms = Inr []"
proof -
  have el: "eligible (Some f) ms = []"
    using assms by (auto simp: eligible_def truthy_def list_all_iff filter_empty_conv)
  then have "scored e q (Some f) ms = Inr []"
    using scored_eligible [of "Some f" ms e q] by simp
  then show ?thesis
    by (simp add: search_def sort_scored_def sort_reverse_def slice_to_def)
qed

lemma search_returns:
  "\<forall>m \<in> set (eligible tf ms). compatible e q (embedding m) \<Longrightarrow> \<exists>res. search e q k tf ms = Inr res"
  using scored_eligible [of tf ms e q] by (simp add: search_def)

lemma compatible_self: "compatible e q q"
  by (simp add: compatible_def)

text \<open>
  When every record that passes the filter has an embedding compatible with the query and
  no similarity is NaN, \<open>search\<close> returns: at most \<open>top_k\<close> records for a \<open>top_k\<close> that is
  not negative, in descending order of similarity, records of equal similarity in their
  order of insertion, and all of the filter's type when the filter is truthy.
\<close>

lemma search_ranked:
  assumes c: "\<forall>m \<in> set (eligible type_filter ms). compatible e q (embedding m)"
    and n: "\<forall>m \<in> set (eligible type_filter ms). similarity e q (embedding m) \<noteq> NaN"
  shows "\<exists>res. search e q top_k type_filter ms = Inr res
     \<and> (0 \<le> top_k \<longrightarrow> int (length res) \<le> top_k)
     \<and> sorted_wrt (\<lambda>x y. rank (similarity e q (embedding y)) \<le> rank (similarity e q (embedding x))) res
     \<and> (\<forall>v. prefix (filter (\<lambda>m. rank (similarity e q (embedding m)) = v) res)
                     (filter (\<lambda>m. rank (similarity e q (embedding m)) = v) (eligible type_filter ms)))
     \<and> (truthy type_filter \<longrightarrow> (\<forall>m \<in> set res. type m = the type_filter))"
proof -
  define sim where "sim = (\<lambda>m::MemoryItem. rank (similarity e q (embedding m)))"
  define sc where "sc = map (\<lambda>m. (similarity e q (embedding m), m)) (eligible type_filter ms)"
  define top where "top = slice_to top_k (sort_reverse (\<lambda>p. rank (fst p)) sc)"
  have sc: "scored e q type_filter ms = Inr sc"
    using scored_eligible [OF c] by (simp add: sc_def)
  have nonan: "\<not> list_ex (\<lambda>p. fst p = NaN) sc"
    using n by (auto simp: sc_def list_ex_iff)
  have res: "search e q top_k type_filter ms = Inr (map snd top)"
    by (simp add: search_def sc sort_scored_def nonan top_def)
  obtain k where k: "top = take k (sort_reverse (\<lambda>p. rank (fst p)) sc)"
    using slice_to_take [of top_k "sort_reverse (\<lambda>p. rank (fst p)) sc"] by (auto simp: top_def)
  have key: "rank (fst p) = sim (snd p)" if "p \<in> set top" for p
  proof -
    have "p \<in> set sc" using that set_slice_to [of top_k "sort_reverse (\<lambda>p. rank (fst p)) sc"]
      by (auto simp: top_def set_sort_reverse)
    then show ?thesis by (auto simp: sc_def sim_def)
  qed
  have len: "0 \<le> top_k \<longrightarrow> int (length (map snd top)) \<le> top_k"
    by (simp add: top_def length_slice_to)
  have "sorted_wrt (\<lambda>x y. rank (fst y) \<le> rank (fst x)) top"
    unfolding k by (intro sorted_wrt_take sort_reverse_descending)
  then have "sorted_wrt (\<lambda>x y. sim (snd y) \<le> sim (snd x)) top"
    by (rule sorted_wrt_mono_rel [rotated]) (simp add: key)
  then have desc: "sorted_wrt (\<lambda>x y. sim y \<le> sim x) (map snd top)"
    by (simp add: sorted_wrt_map)
  have stable: "prefix (filter (\<lambda>m. sim m = v) (map snd top))
                       (filter (\<lambda>m. sim m = v) (eligible type_filter ms))" for v
  proof -
    have "filter (\<lambda>m. sim m = v) (map snd top) = map snd (filter (\<lambda>p. sim (snd p) = v) top)"
      by (simp add: filter_map comp_def)
    also have "filter (\<lambda>p. sim (snd p) = v) top = filter (\<lambda>p. rank (fst p) = v) top"
      by (rule filter_cong) (simp_all add: key)
    finally have a: "filter (\<lambda>m. sim m = v) (map snd top)
        = map snd (filter (\<lambda>p. rank (fst p) = v) top)" .
    have "prefix (filter (\<lambda>p. rank (fst p) = v) top)
            (filter (\<lambda>p. rank (fst p) = v) (sort_reverse (\<lambda>p. rank (fst p)) sc))"
      unfolding k by (intro filter_mono_prefix take_is_prefix)
    then have "prefix (filter (\<lambda>p. rank (fst p) = v) top) (filter (\<lambda>p. rank (fst p) = v) sc)"
      by (simp only: sort_reverse_stable)
    then have "prefix (map snd (filter (\<lambda>p. rank (fst p) = v) top))
                 (map snd (filter (\<lambda>p. rank (fst p) = v) sc))"
      by (rule map_mono_prefix)
    moreover have "map snd (filter (\<lambda>p. rank (fst p) = v) sc)
        = filter (\<lambda>m. sim m = v) (eligible type_filter ms)"
      by (simp add: sc_def sim_def filter_map comp_def)
    ultimately show ?thesis by (simp only: a)
  qed
  have kind: "\<forall>m \<in> set (map snd top). type m = the type_filter" if "truthy type_filter"
  proof
    fix m assume "m \<in> set (map snd top)"
    then have "m \<in> snd ` set sc"
      using set_slice_to [of top_k "sort_reverse (\<lambda>p. rank (fst p)) sc"]
      by (auto simp: top_def set_sort_reverse)
    then have "m \<in> set (eligible type_filter ms)" by (auto simp: sc_def)
    then show "type m = the type_filter" using that by (auto simp: eligible_def)
  qed
  show ?thesis
    using res len desc stable kind unfolding sim_def by blast
qed

text \<open>
  C1. A query of two entries against a store whose one record has an embedding of three
  entries. Both norms are 1, so neither guard of \<open>_cosine_similarity\<close> returns; \<open>np.dot\<close>
  raises ValueError on the two lengths, nothing catches it, and \<open>search\<close> raises where it
  was to return at most five records.
\<close>

theorem search_raises_on_dimension_mismatch:
  "search example_env [one, pos_zero] 5 None [item_d] = Inl ValueError"
proof -
  have n: "linalg_norm example_env [one, pos_zero] = one"
    "linalg_norm example_env [one, pos_zero, pos_zero] = one"
    by (simp_all add: linalg_norm_def example_env_dot seq_dot_examples fsqrt_one)
  have "cosine_similarity example_env [one, pos_zero] [one, pos_zero, pos_zero] = Inl ValueError"
    by (simp add: cosine_similarity_def n fmul_one) (simp add: is_zero_def one_def)
  then show ?thesis by (simp add: search_def truthy_def item_d_def)
qed

section \<open>Deletion and clearing\<close>

text \<open>
  C9. For every store and every integer index outside \<open>[0, len)\<close>, negative ones included,
  \<open>delete\<close> leaves the store unchanged (and cannot raise: it returns the store). For an index
  inside the range it removes exactly the record at that position: the store is one
  shorter, the records before the index stay in place and the later ones move up by one.
\<close>

theorem delete_by_index:
  "(idx < 0 \<or> int (length ms) \<le> idx \<longrightarrow> delete idx ms = ms)
   \<and> (0 \<le> idx \<and> idx < int (length ms) \<longrightarrow>
        delete idx ms = take (nat idx) ms @ drop (Suc (nat idx)) ms
        \<and> length (delete idx ms) = length ms - 1
        \<and> (\<forall>j < length ms - 1. delete idx ms ! j = (if int j < idx then ms ! j else ms ! Suc j)))"
proof (intro conjI impI)
  assume "idx < 0 \<or> int (length ms) \<le> idx"
  then show "delete idx ms = ms" by (auto simp: delete_def)
next
  assume r: "0 \<le> idx \<and> idx < int (length ms)"
  then show d: "delete idx ms = take (nat idx) ms @ drop (Suc (nat idx)) ms"
    by (simp add: delete_def)
  from r have n: "nat idx < length ms" by linarith
  from n show "length (delete idx ms) = length ms - 1"
    unfolding d by (simp add: min_def)
  show "\<forall>j < length ms - 1. delete idx ms ! j = (if int j < idx then ms ! j else ms ! Suc j)"
  proof (intro allI impI)
    fix j assume j: "j < length ms - 1"
    show "delete idx ms ! j = (if int j < idx then ms ! j else ms ! Suc j)"
    proof (cases "int j < idx")
      case True
      then have "j < nat idx" by linarith
      then show ?thesis using True n unfolding d by (simp add: nth_append)
    next
      case False
      then have "nat idx \<le> j" by linarith
      then show ?thesis using False n j unfolding d by (simp add: nth_append min_def)
    qed
  qed
qed

text \<open>
  Deleting at \<open>-1\<close>, at the length and at position 1 of a store of three records.
\<close>

theorem delete_by_index_witness:
  "delete (- 1) [item_a, item_b, item_c] = [item_a, item_b, item_c]
   \<and> delete 3 [item_a, item_b, item_c] = [item_a, item_b, item_c]
   \<and> delete 1 [item_a, item_b, item_c] = [item_a, item_c]"
  using delete_by_index [of "- 1" "[item_a, item_b, item_c]"]
    delete_by_index [of 3 "[item_a, item_b, item_c]"]
    delete_by_index [of 1 "[item_a, item_b, item_c]"]
  by simp

text \<open>
  C8. After \<open>clear(keep_permanent=True)\<close>, \<open>list()\<close> is exactly the prior records whose
  permanent flag is set, in their original relative order; \<open>clear(keep_permanent=False)\<close>
  leaves the store empty.
\<close>

theorem clear_keeps_permanent:
  "list_memories (clear True ms) = filter permanent (list_memories ms)
   \<and> list_memories (clear False ms) = []"
  by (simp add: clear_def list_memories_def)

section \<open>Persona derivation\<close>

lemma str_int_3: "str_int e 3 = Inr (lit ''3'')"
  by (simp add: str_int_def too_many_digits_def str_nat.simps lit_def)

lemma survey_example_mbti: "derive_mbti e survey_example = Inr (lit ''EXXX'')"
  by (simp add: survey_example_def derive_mbti_def int_or_3_def py_int_def lit_def)

lemma survey_example_top_vals:
  "top_vals e survey_example = [lit ''honesty'', lit ''creativity'', lit ''efficiency'']"
  by (simp add: survey_example_def top_vals_def top_values_def values_map_def geti_def py_int_def
      slice_to_def sort_reverse_def lit_def)

lemma survey_example_tone: "tone_style_of e survey_example = lit ''direct, casual''"
  by (simp add: survey_example_def tone_style_of_def tone_bits_def geti_def py_int_def lit_def)

lemma survey_example_humor: "humor_phrase_of e survey_example = Inr (lit ''light'')"
  by (simp add: survey_example_def humor_phrase_of_def geti_def py_int_def py_str_def strip_def
      is_space_def lit_def)

lemma survey_example_decision_style:
  "decision_style_of e survey_example = lit ''balances data and intuition''"
  by (simp add: survey_example_def decision_style_of_def geti_def py_int_def lit_def)

lemma survey_example_traits:
  "traits_of e survey_example = Inr (lit ''Traits: agreeableness 3/5, conscientiousness 3/5, openness 3/5, extraversion 3/5.'')"
proof -
  have g: "geti e survey_example (lit ''agreeableness'') 3 = 3"
    "geti e survey_example (lit ''conscientiousness'') 3 = 3"
    "geti e survey_example (lit ''openness'') 3 = 3"
    "geti e survey_example (lit ''extraversion'') 3 = 3"
    by (simp_all add: survey_example_def geti_def py_int_def lit_def)
  show ?thesis by (simp add: traits_of_def g str_int_3) (simp add: lit_def)
qed

lemma survey_example_summary:
  "persona_summary_of e survey_example (lit ''light'') = Inr survey_summary"
  by (simp add: persona_summary_of_def survey_example_traits survey_example_tone
      survey_example_top_vals survey_example_decision_style survey_summary_def)
    (simp add: lit_def)

lemma derive_survey_example:
  "derive_persona_fields e survey_example =
     Inr \<lparr>f_tone = lit ''direct, casual'',
          f_values = lit ''honesty, creativity, efficiency'',
          f_humor = lit ''light'',
          f_decision_style = lit ''balances data and intuition'',
          f_persona_summary = survey_summary,
          f_mbti = lit ''EXXX''\<rparr>"
  by (simp add: derive_persona_fields_def survey_example_humor survey_example_summary
      survey_example_mbti survey_example_tone survey_example_top_vals
      survey_example_decision_style)
    (simp add: lit_def)


lemma geti_total:
  "geti e answers key dflt =
     (case answers key of
        None \<Rightarrow> dflt
      | Some v \<Rightarrow> (case py_int e v of Inl err \<Rightarrow> dflt | Inr n \<Rightarrow> n))"
  by (simp add: geti_def py_int_def split: option.splits)


text \<open>
  C2. An answers mapping whose \<open>mbti_ei\<close> is the string \<open>abc\<close>. \<open>_derive_mbti\<close> calls
  \<open>int\<close> with no handler around it, so derivation raises ValueError, and \<open>process_survey\<close>
  raises it after it has stored the answers in the persona; with \<open>None\<close> for the value the
  exception is TypeError. The same two values under a key that \<open>geti\<close> reads give the
  midpoint 3.
\<close>

theorem derive_raises_on_non_numeric_mbti:
  "derive_persona_fields e [lit ''mbti_ei'' \<mapsto> StrV (lit ''abc'')] = Inl ValueError
   \<and> process_survey e [lit ''mbti_ei'' \<mapsto> StrV (lit ''abc'')] tw =
       (Inl ValueError,
        tw\<lparr>persona := (persona tw)\<lparr>survey_json := [lit ''mbti_ei'' \<mapsto> StrV (lit ''abc'')]\<rparr>\<rparr>)
   \<and> derive_persona_fields e [lit ''mbti_ei'' \<mapsto> NoneV] = Inl TypeError
   \<and> geti e [lit ''tone_directness'' \<mapsto> StrV (lit ''abc'')] (lit ''tone_directness'') 3 = 3
   \<and> geti e [lit ''tone_directness'' \<mapsto> NoneV] (lit ''tone_directness'') 3 = 3"
proof -
  have p: "py_int e (StrV (lit ''abc'')) = Inl ValueError"
    by (simp add: py_int_def parse_int_def int_space_def digit_of_def lit_def)
  have k: "lit ''humor_style'' \<noteq> lit ''mbti_ei''" by (simp add: lit_def)
  have g: "geti e [lit ''mbti_ei'' \<mapsto> v] key 3 = 3"
    if "key \<noteq> lit ''mbti_ei''" for key v
    using that by (simp add: geti_def py_int_def)
  have gh: "geti e [lit ''mbti_ei'' \<mapsto> v] (lit ''humor_frequency'') 3 = 3" for v
    by (rule g) (simp add: lit_def)
  have st: "strip (lit ''light'') = lit ''light''"
    by (simp add: strip_def is_space_def lit_def)
  have h: "humor_phrase_of e [lit ''mbti_ei'' \<mapsto> v] = Inr (lit ''light'')" for v
    by (simp add: humor_phrase_of_def k py_str_def gh st Let_def)
  have gt: "geti e [lit ''mbti_ei'' \<mapsto> v] (lit ''agreeableness'') 3 = 3"
    "geti e [lit ''mbti_ei'' \<mapsto> v] (lit ''conscientiousness'') 3 = 3"
    "geti e [lit ''mbti_ei'' \<mapsto> v] (lit ''openness'') 3 = 3"
    "geti e [lit ''mbti_ei'' \<mapsto> v] (lit ''extraversion'') 3 = 3" for v
    by (rule g, simp add: lit_def)+
  have t: "\<exists>s. traits_of e [lit ''mbti_ei'' \<mapsto> v] = Inr s" for v
    by (simp add: traits_of_def gt str_int_3)
  have s: "\<exists>s. persona_summary_of e [lit ''mbti_ei'' \<mapsto> v] (lit ''light'') = Inr s" for v
    using t [of v] by (auto simp: persona_summary_of_def)
  have m1: "derive_mbti e [lit ''mbti_ei'' \<mapsto> StrV (lit ''abc'')] = Inl ValueError"
    by (simp add: derive_mbti_def int_or_3_def p)
  have m2: "derive_mbti e [lit ''mbti_ei'' \<mapsto> NoneV] = Inl TypeError"
    by (simp add: derive_mbti_def int_or_3_def py_int_def)
  have d: "derive_persona_fields e [lit ''mbti_ei'' \<mapsto> StrV (lit ''abc'')] = Inl ValueError"
    using s [of "StrV (lit ''abc'')"] by (auto simp: derive_persona_fields_def h m1)
  have n: "derive_persona_fields e [lit ''mbti_ei'' \<mapsto> NoneV] = Inl TypeError"
    using s [of NoneV] by (auto simp: derive_persona_fields_def h m2)
  have g1: "geti e [lit ''tone_directness'' \<mapsto> StrV (lit ''abc'')] (lit ''tone_directness'') 3 = 3"
    by (simp add: geti_def p)
  have g2: "geti e [lit ''tone_directness'' \<mapsto> NoneV] (lit ''tone_directness'') 3 = 3"
    by (simp add: geti_def py_int_def)
  show ?thesis
    by (simp add: d n g1 g2 process_survey_def)
qed

section \<open>Top values\<close>
















section \<open>Processing a survey\<close>

lemma length_embed_loop: "embed_loop e model ts = Some vecs \<Longrightarrow> length vecs = length ts"
  by (induction ts arbitrary: vecs) (auto split: option.splits)

lemma length_embed: "length (embed e g texts) = length texts"
  by (auto simp: embed_def offline_embeddings_def length_embed_loop split: option.splits)

lemma first_embed: "first (embed e g [t]) = Inr (embedding_of e g t)"
proof -
  have "length (embed e g [t]) = 1" by (simp add: length_embed)
  then obtain v where "embed e g [t] = [v]"
    by (cases "embed e g [t]") auto
  then show ?thesis by (simp add: first_def embedding_of_def)
qed

lemma embedding_of_offline:
  "\<not> (have_sdk g \<and> configured g) \<Longrightarrow> embedding_of e g t = map (random_draw e t) [0..<256]"
  by (auto simp: embedding_of_def embed_def offline_embeddings_def)

lemma valid_types:
  "lit ''survey'' \<in> set VALID_MEMORY_TYPES" "lit ''chat'' \<in> set VALID_MEMORY_TYPES"
  "lit ''decision'' \<in> set VALID_MEMORY_TYPES"
  by (simp_all add: VALID_MEMORY_TYPES_def)

lemma remember_valid:
  "ty \<in> set VALID_MEMORY_TYPES \<Longrightarrow>
   remember e embedded ty tx mt tw =
     (Inr (), tw\<lparr>memories := memories tw
        @ [\<lparr>type = ty, text = tx, embedding = embedding_of e (gemini tw) embedded,
             meta = mt, permanent = False\<rparr>]\<rparr>)"
  by (simp add: remember_def first_embed new_MemoryItem_def add_def)

lemma survey_example_strings:
  "stripped_answer e survey_example (lit ''catchphrase'') = Inr (lit ''Ship it.'')"
  "stripped_answer e survey_example (lit ''example_decision1'') = Inr []"
  "stripped_answer e survey_example (lit ''example_decision2'') = Inr []"
  "stripped_answer e survey_example (lit ''example_decision3'') = Inr []"
  by (simp_all add: stripped_answer_def survey_example_def py_str_def strip_def is_space_def lit_def)

lemma text_summary_example:
  "tone_style p = lit ''direct, casual'' \<Longrightarrow> values p = lit ''honesty, creativity, efficiency'' \<Longrightarrow>
   decision_style p = lit ''balances data and intuition'' \<Longrightarrow> humor p = lit ''light'' \<Longrightarrow>
   mbti p = lit ''EXXX'' \<Longrightarrow> text_summary p = survey_summary_text"
  by (simp add: text_summary_def survey_summary_text_def lit_def)

text \<open>
  C7. Processing the survey answers of the example scenario returns, with the tone
  \<open>direct, casual\<close>, which contains \<open>direct\<close> and \<open>casual\<close>; top values that lead with
  \<open>honesty\<close>; the type code \<open>EXXX\<close>, whose first letter is \<open>E\<close> and whose third letter is
  the placeholder \<open>X\<close>; and two survey records appended to the store, the first with the
  text \<open>Catchphrase: Ship it.\<close>, the second with the text summary of the persona.
\<close>

theorem process_survey_example:
  "process_survey e survey_example tw =
     (Inr (),
      tw\<lparr>persona := (persona tw)
            \<lparr>persona_summary := survey_summary,
             tone_style := lit ''direct, casual'',
             values := lit ''honesty, creativity, efficiency'',
             humor := lit ''light'',
             decision_style := lit ''balances data and intuition'',
             survey_json := survey_example,
             mbti := lit ''EXXX''\<rparr>,
          memories := memories tw
            @ [survey_item e (gemini tw) (lit ''Ship it.'') (lit ''Catchphrase: Ship it.''),
               survey_item e (gemini tw) survey_summary_text survey_summary_text]\<rparr>)
   \<and> sublist (lit ''direct'') (lit ''direct, casual'')
   \<and> sublist (lit ''casual'') (lit ''direct, casual'')
   \<and> top_vals e survey_example ! 0 = lit ''honesty''
   \<and> lit ''EXXX'' ! 0 = of_char CHR ''E'' \<and> lit ''EXXX'' ! 2 = of_char CHR ''X''"
proof -
  have s1: "sublist (lit ''direct'') ([] @ lit ''direct'' @ lit '', casual'')" by (rule sublist_appendI)
  have s2: "sublist (lit ''casual'') (lit ''direct, '' @ lit ''casual'' @ [])" by (rule sublist_appendI)
  have c1: "[] @ lit ''direct'' @ lit '', casual'' = lit ''direct, casual''" by (simp add: lit_def)
  have c2: "lit ''direct, '' @ lit ''casual'' @ [] = lit ''direct, casual''" by (simp add: lit_def)
  have cp: "lit ''Catchphrase: '' @ lit ''Ship it.'' = lit ''Catchphrase: Ship it.''"
    by (simp add: lit_def)
  have ne: "lit ''Ship it.'' \<noteq> []" by (simp add: lit_def)
  have "process_survey e survey_example tw = (Inr (),
      tw\<lparr>persona := (persona tw)
            \<lparr>persona_summary := survey_summary,
             tone_style := lit ''direct, casual'',
             values := lit ''honesty, creativity, efficiency'',
             humor := lit ''light'',
             decision_style := lit ''balances data and intuition'',
             survey_json := survey_example,
             mbti := lit ''EXXX''\<rparr>,
          memories := memories tw
            @ [survey_item e (gemini tw) (lit ''Ship it.'') (lit ''Catchphrase: Ship it.''),
               survey_item e (gemini tw) survey_summary_text survey_summary_text]\<rparr>)"
    by (simp add: process_survey_def derive_survey_example Let_def survey_example_strings ne
        remember_valid [OF valid_types(1)] text_summary_example cp survey_item_def)
  then show ?thesis using s1 s2 unfolding c1 c2
    by (simp add: survey_example_top_vals) (simp add: lit_def)
qed

section \<open>Chat\<close>

lemma chat_stub:
  "\<not> (have_sdk g \<and> configured g) \<Longrightarrow> GeminiClient_chat e g system_prompt m = stub_reply m"
  by (auto simp: GeminiClient_chat_def)

text \<open>
  C4. On a twin with an empty store and no provider (the SDK is missing or no key is
  configured), \<open>chat\<close> returns the stub reply, the fixed template around the first 160
  characters of the message, and raises nothing. The store then holds exactly two records:
  the message as a chat record of role user, then the reply as a chat record of role
  assistant. The embedding of the message is the offline one, of 256 drawn entries.
\<close>

theorem chat_offline_on_empty_store:
  assumes "memories tw = []" and "\<not> (have_sdk (gemini tw) \<and> configured (gemini tw))"
  shows "chat e message k tw =
     (Inr (stub_reply message),
      tw\<lparr>memories := [user_item e (gemini tw) message,
                      assistant_item e (gemini tw) (stub_reply message)]\<rparr>)
    \<and> stub_reply message =
        lit ''[Stubbed Gemini Reply] Based on your persona and memories, here's a likely response: ''
        @ take 160 message @ lit '' ...''
    \<and> embedding_of e (gemini tw) message = map (random_draw e message) [0..<256]"
proof -
  define it where "it = user_item e (gemini tw) message"
  have "\<forall>m \<in> set (eligible None [it]). compatible e (embedding_of e (gemini tw) message) (embedding m)"
    by (simp add: eligible_def it_def user_item_def compatible_self)
  from search_returns [OF this] obtain res
    where res: "search e (embedding_of e (gemini tw) message) k None [it] = Inr res" by blast
  have c: "chat e message k tw =
     (Inr (stub_reply message),
      tw\<lparr>memories := [it, assistant_item e (gemini tw) (stub_reply message)]\<rparr>)"
    using assms(1) res
    by (simp add: chat_def first_embed new_MemoryItem_def valid_types add_def Let_def
        chat_stub [OF assms(2)] remember_valid [OF valid_types(2)] assistant_item_def
        flip: it_def [unfolded user_item_def])
  have s: "stub_reply message =
        lit ''[Stubbed Gemini Reply] Based on your persona and memories, here's a likely response: ''
        @ take 160 message @ lit '' ...''"
    by (simp add: stub_reply_def slice_to_def lit_def)
  show ?thesis using c s embedding_of_offline [OF assms(2)] by (simp add: it_def)
qed

text \<open>
  The question about deadlines, put to a twin as the constructor leaves it.
\<close>

theorem chat_offline_on_empty_store_witness:
  "memories fresh_twin = []
   \<and> \<not> (have_sdk (gemini fresh_twin) \<and> configured (gemini fresh_twin))
   \<and> chat example_env deadline_question 5 fresh_twin =
       (Inr deadline_reply,
        fresh_twin\<lparr>memories := [user_item example_env (gemini fresh_twin) deadline_question,
                                assistant_item example_env (gemini fresh_twin) deadline_reply]\<rparr>)"
proof -
  have m: "memories fresh_twin = []"
    by (simp add: fresh_twin_def new_DigitalAITwin_def)
  have g: "\<not> (have_sdk (gemini fresh_twin) \<and> configured (gemini fresh_twin))"
    by (simp add: fresh_twin_def new_DigitalAITwin_def new_GeminiClient_def example_env_def)
  have r: "stub_reply deadline_question = deadline_reply"
    by (simp add: stub_reply_def slice_to_def deadline_question_def deadline_reply_def lit_def)
  show ?thesis
    using chat_offline_on_empty_store [OF m g, of example_env deadline_question 5] m g
    by (simp add: r)
qed

section \<open>Simulated decisions\<close>

text \<open>
  C10. With \<open>store=False\<close>, \<open>simulate_decision\<close> leaves the twin, and with it the store,
  as it was, whether it returns or raises. With \<open>store=True\<close> a call that returns has
  appended one record and no other, the reply as a decision record: the situation is never
  stored. A call that raises has appended nothing.
\<close>

theorem simulate_decision_store_flag:
  "snd (simulate_decision e situation k False tw) = tw
   \<and> (case simulate_decision e situation k True tw of
         (Inl err, tw') \<Rightarrow> tw' = tw
       | (Inr reply, tw') \<Rightarrow>
           tw' = tw\<lparr>memories := memories tw @ [decision_item e (gemini tw) reply]\<rparr>)"
  by (simp add: simulate_decision_def Let_def remember_valid [OF valid_types(3)] decision_item_def
      split: sum.splits)

lemma fresh_twin_prompt:
  "\<exists>sp. simulate_decision_prompt e job_question k fresh_twin = Inr sp"
proof -
  have m: "memories fresh_twin = []" by (simp add: fresh_twin_def new_DigitalAITwin_def)
  have s: "search e q n tf [] = Inr []" for q n tf
    by (simp add: search_def sort_scored_def sort_reverse_def slice_to_def)
  show ?thesis
    by (simp add: simulate_decision_prompt_def first_embed decision_context_def m s)
qed

text \<open>
  A decision asked of a twin as the constructor leaves it, with and without storing.
\<close>

theorem simulate_decision_store_flag_witness:
  "simulate_decision example_env job_question 5 False fresh_twin = (Inr job_reply, fresh_twin)
   \<and> simulate_decision example_env job_question 5 True fresh_twin =
       (Inr job_reply,
        fresh_twin\<lparr>memories := [decision_item example_env (gemini fresh_twin) job_reply]\<rparr>)"
proof -
  have m: "memories fresh_twin = []" by (simp add: fresh_twin_def new_DigitalAITwin_def)
  have g: "\<not> (have_sdk (gemini fresh_twin) \<and> configured (gemini fresh_twin))"
    by (simp add: fresh_twin_def new_DigitalAITwin_def new_GeminiClient_def example_env_def)
  have r: "stub_reply job_question = job_reply"
    by (simp add: stub_reply_def slice_to_def job_question_def job_reply_def lit_def)
  obtain sp where sp: "simulate_decision_prompt example_env job_question 5 fresh_twin = Inr sp"
    using fresh_twin_prompt by blast
  have f: "fst (simulate_decision example_env job_question 5 store fresh_twin) = Inr job_reply"
    for store
    by (simp add: simulate_decision_def sp Let_def chat_stub [OF g] r
        remember_valid [OF valid_types(3)])
  show ?thesis
    using simulate_decision_store_flag [of example_env job_question 5 fresh_twin]
      f [of False] f [of True] m
    by (auto simp: prod_eq_iff split: prod.splits sum.splits)
qed

lemma join_take_map: "slice_to n (map f xs) = map f (slice_to n xs)"
  by (simp add: slice_to_def take_map)

lemma slice_to_nonempty: "0 < n \<Longrightarrow> slice_to n xs \<noteq> [] \<longleftrightarrow> xs \<noteq> []"
  by (cases xs) (auto simp: slice_to_def)

lemma block_fragment:
  "0 < n \<Longrightarrow>
   block header (map (\<lambda>m. lit ''- '' @ text m) items)
     (slice_to n (map (\<lambda>m. lit ''- '' @ text m) items))
   = fragments [(header, slice_to n items)]"
  by (simp add: block_def fragments_def render_fragment_def join_take_map slice_to_nonempty)

lemma fragments_append: "fragments (fs @ gs) = fragments fs @ fragments gs"
  by (simp add: fragments_def)

text \<open>
  C5. The system prompt of \<open>simulate_decision\<close> is the head, then one block for each of the
  three retrieved lists that is not empty, in the order decisions, survey, preferences, then
  the style rules. A block is its header and its bulleted lines, so an empty list leaves
  neither a header nor a line: the prompt is the one assembled without that block. On a
  store with no decision record the retrieval of decisions returns the empty list, and the
  block of past decisions is left out.
\<close>

theorem decision_prompt_blocks:
  "decision_system_prompt e tw ds ss ps
     = prompt_head tw
       @ fragments [(decisions_header, slice_to 5 ds), (survey_header, slice_to 3 ss),
                    (prefs_header, slice_to 5 ps)]
       @ prompt_tail e tw
   \<and> (ds = [] \<longrightarrow> decision_system_prompt e tw ds ss ps
         = prompt_head tw
           @ fragments [(survey_header, slice_to 3 ss), (prefs_header, slice_to 5 ps)]
           @ prompt_tail e tw)
   \<and> (ss = [] \<longrightarrow> decision_system_prompt e tw ds ss ps
         = prompt_head tw
           @ fragments [(decisions_header, slice_to 5 ds), (prefs_header, slice_to 5 ps)]
           @ prompt_tail e tw)
   \<and> (ps = [] \<longrightarrow> decision_system_prompt e tw ds ss ps
         = prompt_head tw
           @ fragments [(decisions_header, slice_to 5 ds), (survey_header, slice_to 3 ss)]
           @ prompt_tail e tw)
   \<and> simulate_decision_prompt e situation k tw
       = (case decision_context e (embedding_of e (gemini tw) situation) k tw of
            Inl err \<Rightarrow> Inl err
          | Inr (rd, sc, up) \<Rightarrow> Inr (decision_system_prompt e tw rd sc up))
   \<and> (list_all (\<lambda>m. type m \<noteq> lit ''decision'') (memories tw) \<longrightarrow>
        search e q k (Some (lit ''decision'')) (memories tw) = Inr []
        \<and> (case decision_context e q k tw of
             Inl err \<Rightarrow> True
           | Inr (rd, sc, up) \<Rightarrow> rd = []))"
proof -
  have p5: "block prefs_header (map (\<lambda>m. lit ''- '' @ text m) (slice_to 5 ps))
              (map (\<lambda>m. lit ''- '' @ text m) (slice_to 5 ps))
            = fragments [(prefs_header, slice_to 5 ps)]" for ps
    by (simp add: block_def fragments_def render_fragment_def)
  have main: "decision_system_prompt e tw ds ss ps
     = prompt_head tw
       @ fragments [(decisions_header, slice_to 5 ds), (survey_header, slice_to 3 ss),
                    (prefs_header, slice_to 5 ps)]
       @ prompt_tail e tw" for ds ss ps
    using fragments_append [of "[(decisions_header, slice_to 5 ds)]"
        "[(survey_header, slice_to 3 ss), (prefs_header, slice_to 5 ps)]"]
      fragments_append [of "[(survey_header, slice_to 3 ss)]" "[(prefs_header, slice_to 5 ps)]"]
    by (simp add: decision_system_prompt_def Let_def prompt_head_def prompt_tail_def
        block_fragment p5 flip: decisions_header_def survey_header_def prefs_header_def)
  have drop: "fragments ((h, []) # fs) = fragments fs" for h fs
    by (simp add: fragments_def)
  have d: "ds = [] \<longrightarrow> decision_system_prompt e tw ds ss ps
         = prompt_head tw
           @ fragments [(survey_header, slice_to 3 ss), (prefs_header, slice_to 5 ps)]
           @ prompt_tail e tw"
    by (simp add: main slice_to_def drop)
  have s: "ss = [] \<longrightarrow> decision_system_prompt e tw ds ss ps
         = prompt_head tw
           @ fragments [(decisions_header, slice_to 5 ds), (prefs_header, slice_to 5 ps)]
           @ prompt_tail e tw"
    by (simp add: main slice_to_def fragments_def)
  have p: "ps = [] \<longrightarrow> decision_system_prompt e tw ds ss ps
         = prompt_head tw
           @ fragments [(decisions_header, slice_to 5 ds), (survey_header, slice_to 3 ss)]
           @ prompt_tail e tw"
    by (simp add: main slice_to_def fragments_def)
  have sd: "simulate_decision_prompt e situation k tw
       = (case decision_context e (embedding_of e (gemini tw) situation) k tw of
            Inl err \<Rightarrow> Inl err
          | Inr (rd, sc, up) \<Rightarrow> Inr (decision_system_prompt e tw rd sc up))"
    by (simp add: simulate_decision_prompt_def first_embed)
  have st: "list_all (\<lambda>m. type m \<noteq> lit ''decision'') (memories tw) \<longrightarrow>
        search e q k (Some (lit ''decision'')) (memories tw) = Inr []
        \<and> (case decision_context e q k tw of
             Inl err \<Rightarrow> True
           | Inr (rd, sc, up) \<Rightarrow> rd = [])"
  proof
    assume a: "list_all (\<lambda>m. type m \<noteq> lit ''decision'') (memories tw)"
    have ne: "lit ''decision'' \<noteq> []" by (simp add: lit_def)
    have r: "search e q k (Some (lit ''decision'')) (memories tw) = Inr []"
      using search_none_of_type [OF ne a] .
    then have "case decision_context e q k tw of
           Inl err \<Rightarrow> True
         | Inr (rd, sc, up) \<Rightarrow> rd = []"
      by (auto simp: decision_context_def split: sum.splits)
    with r show "search e q k (Some (lit ''decision'')) (memories tw) = Inr []
        \<and> (case decision_context e q k tw of
             Inl err \<Rightarrow> True
           | Inr (rd, sc, up) \<Rightarrow> rd = [])" by simp
  qed
  show ?thesis using main d s p sd st by blast
qed

text \<open>
  A prompt with a survey block only, the prompt of a twin as the constructor leaves it, and
  the retrieval of decisions on a store of one chat record.
\<close>

theorem decision_prompt_blocks_witness:
  "decision_system_prompt example_env fresh_twin [] [item_d] []
     = prompt_head fresh_twin @ survey_header @ lit ''- delta\<newline>''
       @ prompt_tail example_env fresh_twin
   \<and> simulate_decision_prompt example_env job_question 5 fresh_twin
       = Inr (prompt_head fresh_twin @ prompt_tail example_env fresh_twin)
   \<and> list_all (\<lambda>m. type m \<noteq> lit ''decision'') (memories (fresh_twin\<lparr>memories := [item_a]\<rparr>))
   \<and> search example_env [one, pos_zero] 5 (Some (lit ''decision''))
         (memories (fresh_twin\<lparr>memories := [item_a]\<rparr>)) = Inr []"
proof -
  have m: "memories fresh_twin = []" by (simp add: fresh_twin_def new_DigitalAITwin_def)
  have s: "search example_env q n tf [] = Inr []" for q n tf
    by (simp add: search_def sort_scored_def sort_reverse_def slice_to_def)
  have c: "decision_context example_env q 5 fresh_twin = Inr ([], [], [])" for q
    by (simp add: decision_context_def m s)
  have f1: "fragments [(survey_header, slice_to 3 [item_d]), (prefs_header, slice_to 5 [])]
      = survey_header @ lit ''- delta\<newline>''"
    by (simp add: fragments_def render_fragment_def slice_to_def item_d_def lit_def)
  have f2: "fragments [(survey_header, slice_to 3 []), (prefs_header, slice_to 5 [])] = []"
    by (simp add: fragments_def slice_to_def)
  have t: "list_all (\<lambda>m. type m \<noteq> lit ''decision'') (memories (fresh_twin\<lparr>memories := [item_a]\<rparr>))"
    by (simp add: item_a_def lit_def)
  from decision_prompt_blocks [where ds = "[]" and e = example_env and tw = fresh_twin
      and ss = "[item_d]" and ps = "[]" and situation = job_question and k = 5 and q = "[]"]
  have "decision_system_prompt example_env fresh_twin [] [item_d] []
     = prompt_head fresh_twin
       @ fragments [(survey_header, slice_to 3 [item_d]), (prefs_header, slice_to 5 [])]
       @ prompt_tail example_env fresh_twin"
    by blast
  then have a: "decision_system_prompt example_env fresh_twin [] [item_d] []
     = prompt_head fresh_twin @ survey_header @ lit ''- delta\<newline>''
       @ prompt_tail example_env fresh_twin"
    by (simp only: f1 append_assoc)
  from decision_prompt_blocks [where ds = "[]" and e = example_env and tw = fresh_twin
      and ss = "[]" and ps = "[]" and situation = job_question and k = 5 and q = "[]"]
  have "simulate_decision_prompt example_env job_question 5 fresh_twin
       = (case decision_context example_env
                 (embedding_of example_env (gemini fresh_twin) job_question) 5 fresh_twin of
            Inl err \<Rightarrow> Inl err
          | Inr (rd, sc, up) \<Rightarrow> Inr (decision_system_prompt example_env fresh_twin rd sc up))"
    and "decision_system_prompt example_env fresh_twin [] [] []
       = prompt_head fresh_twin
         @ fragments [(survey_header, slice_to 3 []), (prefs_header, slice_to 5 [])]
         @ prompt_tail example_env fresh_twin"
    by blast+
  then have b: "simulate_decision_prompt example_env job_question 5 fresh_twin
       = Inr (prompt_head fresh_twin @ prompt_tail example_env fresh_twin)"
    by (simp only: c f2 sum.case prod.case append_Nil)
  from decision_prompt_blocks [where e = example_env and tw = "fresh_twin\<lparr>memories := [item_a]\<rparr>"
      and q = "[one, pos_zero]" and k = 5 and ds = "[]" and ss = "[]" and ps = "[]"
      and situation = job_question] t
  have d: "search example_env [one, pos_zero] 5 (Some (lit ''decision''))
         (memories (fresh_twin\<lparr>memories := [item_a]\<rparr>)) = Inr []"
    by blast
  show ?thesis using a b t d by blast
qed

end
